theory Spec2Isabelle
  imports Complex_Main "HOL-Library.Word"
begin

section \<open>Flightsim: the flight model of app_flightsim.cpp\<close>

text \<open>
  The theory embeds the two functions of \<^verbatim>\<open>class Sample\<close> that carry the flight model,
  \<^verbatim>\<open>Sample::CheckLanding\<close> and \<^verbatim>\<open>Sample::Advance\<close>, together with the part of
  \<^verbatim>\<open>Sample::init\<close> that sets the simulation state.

  Scalars. The C++ \<^verbatim>\<open>float\<close> is modelled by \<^typ>\<open>real\<close>: arithmetic is exact, rounding is
  not modelled, and a real is never NaN. The three places where \<^verbatim>\<open>Advance\<close> can meet a
  NaN and guards against it are explicit in the model: the two calls whose result the
  source tests with \<^verbatim>\<open>isnan\<close> return an \<^typ>\<open>'a option\<close> (\<open>None\<close> is the NaN outcome), so
  both branches of each test are branches of the model; and the quotient of a vector by
  zero is not HOL's \<open>a / 0 = 0\<close> but a value the platform supplies, a parameter of the
  model. The \<^verbatim>\<open>int\<close> counter \<^verbatim>\<open>m_airborn\<close> is a 32-bit word read as a signed number.

  Names. Fields of \<^verbatim>\<open>Vec3F\<close> (\<^verbatim>\<open>x, y, z\<close>) and of \<^verbatim>\<open>Quaternion\<close>
  (\<^verbatim>\<open>X, Y, Z, W\<close>) are written \<open>vx, vy, vz\<close> and \<open>qX, qY, qZ, qW\<close>, since a
  one-letter constant would capture the variables of every statement.
\<close>

subsection \<open>Vectors\<close>

record Vec3F =
  vx :: real
  vy :: real
  vz :: real

record Quaternion =
  qX :: real
  qY :: real
  qZ :: real
  qW :: real

text \<open>Modelled from the spec: the vector header (\<^verbatim>\<open>Vec3F\<close>) is not among the
  repository's sources. The constructor \<^verbatim>\<open>Vec3F(a,b,c)\<close>.\<close>

definition Vec3 :: "real \<Rightarrow> real \<Rightarrow> real \<Rightarrow> Vec3F" where
  "Vec3 a b c = \<lparr>vx = a, vy = b, vz = c\<rparr>"

text \<open>Modelled from the spec: \<^verbatim>\<open>Vec3F + Vec3F\<close> and \<^verbatim>\<open>+=\<close>, componentwise.\<close>

definition vadd :: "Vec3F \<Rightarrow> Vec3F \<Rightarrow> Vec3F" where
  "vadd a b = \<lparr>vx = vx a + vx b, vy = vy a + vy b, vz = vz a + vz b\<rparr>"

text \<open>Modelled from the spec: \<^verbatim>\<open>Vec3F * float\<close> and \<^verbatim>\<open>*=\<close>, componentwise.\<close>

definition vscale :: "Vec3F \<Rightarrow> real \<Rightarrow> Vec3F" where
  "vscale a k = \<lparr>vx = vx a * k, vy = vy a * k, vz = vz a * k\<rparr>"

text \<open>Modelled from the spec: \<^verbatim>\<open>Vec3F / float\<close>, componentwise, for a divisor that is
  not zero (\<open>vquot\<close> below is the division of the source).\<close>

definition vdiv :: "Vec3F \<Rightarrow> real \<Rightarrow> Vec3F" where
  "vdiv a k = \<lparr>vx = vx a / k, vy = vy a / k, vz = vz a / k\<rparr>"

text \<open>Modelled from the spec: \<^verbatim>\<open>Vec3F::Dot\<close>, the scalar product.\<close>

definition Dot :: "Vec3F \<Rightarrow> Vec3F \<Rightarrow> real" where
  "Dot a b = vx a * vx b + vy a * vy b + vz a * vz b"

text \<open>Modelled from the spec: \<^verbatim>\<open>Vec3F::Length\<close>, the Euclidean norm.\<close>

definition Length :: "Vec3F \<Rightarrow> real" where
  "Length a = sqrt (vx a * vx a + vy a * vy a + vz a * vz a)"

text \<open>Modelled from the spec: \<^verbatim>\<open>Vec3F::Normalize\<close> (the spec's "renormalize"): the
  vector divided by its length; the zero vector stays the zero vector.\<close>

definition Normalize :: "Vec3F \<Rightarrow> Vec3F" where
  "Normalize a = vdiv a (Length a)"

text \<open>Modelled from the spec: the macros \<^verbatim>\<open>PI\<close> and \<^verbatim>\<open>RADtoDEG\<close> (the spec's
  \<open>180/\<pi>\<close>) of a header that is not among the repository's sources.\<close>

definition PI :: real where
  "PI = pi"

definition RADtoDEG :: real where
  "RADtoDEG = 180 / pi"

text \<open>The C library's \<^verbatim>\<open>acos\<close>: NaN (here \<open>None\<close>) outside \<open>[-1, 1]\<close>.\<close>

definition acos :: "real \<Rightarrow> real option" where
  "acos d = (if - 1 \<le> d \<and> d \<le> 1 then Some (arccos d) else None)"

subsection \<open>The quaternion library and the platform, as parameters\<close>

text \<open>
  \<^verbatim>\<open>quaternion.h\<close> is not among the repository's sources, so the operations of \<^verbatim>\<open>Quaternion\<close> that the
  flight model calls are parameters of the model, collected in one record:
  \<^item> \<open>vmulq v q\<close> is \<^verbatim>\<open>v * q\<close> (and \<^verbatim>\<open>v *= q\<close>), the vector rotated by the quaternion;
  \<^item> \<open>qmul p q\<close> is \<^verbatim>\<open>p *= q\<close>;
  \<^item> \<open>normalize\<close>, \<open>fromAngleAxis\<close>, \<open>fromDirectionAndRoll\<close>, \<open>toEuler\<close> as named;
  \<^item> \<open>fromRotationFromTo a b f\<close> is \<open>None\<close> when the result's \<^verbatim>\<open>X\<close> is NaN;
  \<^item> \<open>fmt_f\<close> is printf's \<^verbatim>\<open>%4.1f\<close>;
  \<^item> \<open>div_zero v\<close> is what \<^verbatim>\<open>v / 0\<close> evaluates to (NaN or infinite components in
    C++; here any vector).
\<close>

record qlib =
  vmulq :: "Vec3F \<Rightarrow> Quaternion \<Rightarrow> Vec3F"
  qmul :: "Quaternion \<Rightarrow> Quaternion \<Rightarrow> Quaternion"
  normalize :: "Quaternion \<Rightarrow> Quaternion"
  fromAngleAxis :: "real \<Rightarrow> Vec3F \<Rightarrow> Quaternion"
  fromRotationFromTo :: "Vec3F \<Rightarrow> Vec3F \<Rightarrow> real \<Rightarrow> Quaternion option"
  fromDirectionAndRoll :: "Vec3F \<Rightarrow> real \<Rightarrow> Quaternion"
  toEuler :: "Quaternion \<Rightarrow> Vec3F"
  fmt_f :: "real \<Rightarrow> string"
  div_zero :: "Vec3F \<Rightarrow> Vec3F"

text \<open>\<^verbatim>\<open>Vec3F / float\<close> as the source evaluates it.\<close>

definition vquot :: "qlib \<Rightarrow> Vec3F \<Rightarrow> real \<Rightarrow> Vec3F" where
  "vquot L a k = (if k = 0 then div_zero L a else vdiv a k)"

subsection \<open>The simulation state\<close>

text \<open>The fields of \<^verbatim>\<open>class Sample\<close> that \<^verbatim>\<open>Advance\<close> and \<^verbatim>\<open>CheckLanding\<close> read or
  write (camera, mouse and run flags are left out).\<close>

record Sample =
  m_pos :: Vec3F
  m_vel :: Vec3F
  m_orient :: Quaternion
  m_roll :: real
  m_pitch :: real
  m_pitch_adv :: real
  m_power :: real
  m_lift :: Vec3F
  m_thrust :: Vec3F
  m_drag :: Vec3F
  m_force :: Vec3F
  m_accel :: Vec3F
  m_speed :: real
  m_max_speed :: real
  m_aoa :: real
  m_DT :: real
  m_flaps :: real
  m_wind :: Vec3F
  m_runway_length :: real
  m_runway_width :: real
  m_landing_info :: string
  m_landing_status :: bool
  m_airborn :: "32 word"

subsection \<open>Sample::CheckLanding\<close>

text \<open>The text \<^verbatim>\<open>sprintf\<close> writes into \<^verbatim>\<open>msg\<close> (lines 198-204), from the verdict,
  the four printed numbers and the five flags.\<close>

definition ok_str :: "bool \<Rightarrow> string" where
  "ok_str b = (if b then ''OK'' else ''FAIL'')"

definition landing_msg ::
  "qlib \<Rightarrow> bool \<Rightarrow> real \<Rightarrow> bool \<Rightarrow> real \<Rightarrow> bool \<Rightarrow> real \<Rightarrow> bool \<Rightarrow> real \<Rightarrow> bool \<Rightarrow> bool \<Rightarrow> string" where
  "landing_msg L status speed ok_speed sink ok_sink pitch ok_pitch roll ok_roll ok_runway =
     (if status then ''LANDED!'' else ''CRASH'') @
     ''\<newline> Speed (<80): '' @ fmt_f L speed @ '' m/s     '' @ ok_str ok_speed @
     ''\<newline> Sink rate (<2): '' @ fmt_f L sink @ '' m/s      '' @ ok_str ok_sink @
     ''\<newline> Pitch (<5): '' @ fmt_f L pitch @ '' deg     '' @ ok_str ok_pitch @
     ''\<newline> Roll (<5): '' @ fmt_f L roll @ '' deg     '' @ ok_str ok_roll @
     ''\<newline> On Runway: '' @ (if ok_runway then ''Yes     OK'' else ''No     FAIL'') @
     ''\<newline>''"

text \<open>Lines 176-209. The grading runs under the test \<^verbatim>\<open>m_airborn > 2000\<close>; the counter
  is reset after it, outside the test.\<close>

definition CheckLanding :: "qlib \<Rightarrow> Sample \<Rightarrow> Sample" where
  "CheckLanding L s =
     (let s1 =
        (if 2000 < sint (m_airborn s) then
           (let angs = toEuler L (m_orient s);
                ok_speed = (m_speed s < 80);
                ok_sink = (abs (vy (m_vel s)) < 2);
                ok_pitch = (abs (vy angs) < 5);
                ok_roll = (abs (vx angs) < 5);
                ok_runway = (vx (m_pos s) > - m_runway_width s \<and> vx (m_pos s) < m_runway_width s
                             \<and> vz (m_pos s) > - m_runway_length s \<and> vz (m_pos s) < m_runway_length s);
                status = (ok_speed \<and> ok_sink \<and> ok_pitch \<and> ok_roll \<and> ok_runway);
                msg = landing_msg L status (m_speed s) ok_speed (vy (m_vel s)) ok_sink
                        (abs (vy angs)) ok_pitch (abs (vx angs)) ok_roll ok_runway
            in s\<lparr>m_landing_status := status, m_landing_info := msg\<rparr>)
         else s)
      in s1\<lparr>m_airborn := 0\<rparr>)"

subsection \<open>Sample::Advance\<close>

text \<open>The locals of \<^verbatim>\<open>Advance\<close> that later statements mention are definitions of their
  own, in the order of the source; \<open>Advance\<close> below is built from them.\<close>

text \<open>Lines 222-224: the body frame, the world axes rotated by \<^verbatim>\<open>m_orient\<close>.\<close>

definition body_fwd :: "qlib \<Rightarrow> Sample \<Rightarrow> Vec3F" where
  "body_fwd L s = vmulq L (Vec3 1 0 0) (m_orient s)"

definition body_up :: "qlib \<Rightarrow> Sample \<Rightarrow> Vec3F" where
  "body_up L s = vmulq L (Vec3 0 1 0) (m_orient s)"

definition body_right :: "qlib \<Rightarrow> Sample \<Rightarrow> Vec3F" where
  "body_right L s = vmulq L (Vec3 0 0 1) (m_orient s)"

text \<open>Lines 227, 229, 230: \<^verbatim>\<open>m_speed\<close>, the length of the velocity limited to
  \<open>[0, m_max_speed]\<close>.\<close>

definition limited_speed :: "Sample \<Rightarrow> real" where
  "limited_speed s =
     (let speed0 = Length (m_vel s);
          speed1 = (if speed0 < 0 then 0 else speed0)
      in if speed1 > m_max_speed s then m_max_speed s else speed1)"

text \<open>Lines 235-236: the new \<^verbatim>\<open>m_pitch_adv\<close>. The second assignment is not under an
  \<^verbatim>\<open>else\<close>.\<close>

definition next_pitch_adv :: "Sample \<Rightarrow> real" where
  "next_pitch_adv s =
     (let pitch_adv0 = (if vy (m_pos s) \<le> 0 then 1.1 else m_pitch_adv s)
      in pitch_adv0 * 0.9995 + m_pitch s * 0.005)"

text \<open>Lines 228, 231, 234-238: \<^verbatim>\<open>vaxis\<close>, the velocity divided by its length (the
  body forward axis when the limited speed is zero), turned by the pitch control and
  normalised.\<close>

definition steered_vaxis :: "qlib \<Rightarrow> Sample \<Rightarrow> Vec3F" where
  "steered_vaxis L s =
     (let vaxis0 = vquot L (m_vel s) (Length (m_vel s));
          vaxis1 = (if limited_speed s = 0 then body_fwd L s else vaxis0);
          ctrl_pitch = fromAngleAxis L (next_pitch_adv s * 0.0001) (body_right L s)
      in Normalize (vmulq L vaxis1 ctrl_pitch))"

text \<open>Line 247: the lift of the flaps. The quotient \<^verbatim>\<open>m_speed / m_max_speed\<close> is the
  real one; for a top speed of zero (which \<^verbatim>\<open>init\<close> never sets: it sets 500) the source
  divides zero by zero, and the model's quotient is 0 there.\<close>

definition flap_lift :: "Sample \<Rightarrow> real" where
  "flap_lift s = m_flaps s * cos (limited_speed s / m_max_speed s * (PI / 2))"

text \<open>Lines 251-253: air flow over the wing and dynamic pressure.\<close>

definition airflow :: "qlib \<Rightarrow> Sample \<Rightarrow> real" where
  "airflow L s = limited_speed s + Dot (m_wind s) (vscale (steered_vaxis L s) (- 1))"

definition dynamic_pressure :: "qlib \<Rightarrow> Sample \<Rightarrow> real" where
  "dynamic_pressure L s = 0.5 * 1.225 * airflow L s * airflow L s"

text \<open>Lines 256-257: the angle of attack, 1 when \<^verbatim>\<open>acos\<close> gives NaN.\<close>

definition angle_of_attack :: "qlib \<Rightarrow> Sample \<Rightarrow> real" where
  "angle_of_attack L s =
     (case acos (Dot (body_fwd L s) (steered_vaxis L s)) of
        None \<Rightarrow> 1
      | Some a \<Rightarrow> a * RADtoDEG + 1)"

text \<open>Lines 296 and 299: the position after integration, and the ground test on it.\<close>

definition moved_pos :: "qlib \<Rightarrow> Sample \<Rightarrow> Vec3F" where
  "moved_pos L s = vadd (m_pos s) (vscale (vscale (steered_vaxis L s) (limited_speed s)) (m_DT s))"

definition ground_contact :: "qlib \<Rightarrow> Sample \<Rightarrow> bool" where
  "ground_contact L s = (vy (moved_pos L s) \<le> 0.00001)"

text \<open>Lines 212-321.\<close>

definition Advance :: "qlib \<Rightarrow> Sample \<Rightarrow> Sample" where
  "Advance L s =
     (let m_LiftFactor = 0.0001;
          m_DragFactor = 0.0001;
          mass = 0.1;
          fwd = body_fwd L s;
          up = body_up L s;
          speed = limited_speed s;
          pitch_adv = next_pitch_adv s;
          vaxis = steered_vaxis L s;
          vel1 = vscale vaxis speed;
          wing_area = 1 + m_flaps s;
          p = 1.225;
          aoa = angle_of_attack L s;
          CL = sin (aoa * 0.2) + flap_lift s;
          Lf = CL * dynamic_pressure L s * m_LiftFactor * 0.5;
          lift = vscale up Lf;
          drag = vscale (vscale (vscale (vscale vaxis (dynamic_pressure L s)) m_DragFactor) (- 1))
                   wing_area;
          thrust = vscale fwd (m_power s);
          force = vadd (vadd (vadd (Vec3 0 0 0) lift) drag) thrust;
          orient1 = (case fromRotationFromTo L fwd vaxis 0.001 of
                       None \<Rightarrow> m_orient s
                     | Some angvel \<Rightarrow> normalize L (qmul L (m_orient s) angvel));
          ctrl_roll = fromAngleAxis L (m_roll s * 0.001) (vmulq L (Vec3 1 0 0) orient1);
          orient2 = normalize L (qmul L orient1 ctrl_roll);
          accel0 = vadd (vadd (vdiv force mass) (Vec3 0 (- 9.8) 0)) (vscale (vscale (m_wind s) p) 0.1);
          s1 = s\<lparr>m_speed := speed, m_pitch_adv := pitch_adv, m_vel := vel1, m_force := force,
                 m_aoa := aoa, m_lift := lift, m_drag := drag, m_thrust := thrust,
                 m_orient := orient2, m_accel := accel0, m_pos := moved_pos L s\<rparr>;
          s2 =
            (if ground_contact L s then
               (let s3 = CheckLanding L s1;
                    vel3 = vscale ((m_vel s3)\<lparr>vy := 0\<rparr>) 0.9999;
                    orient3 = fromDirectionAndRoll L (Vec3 (vx fwd) 0 (vz fwd)) 0;
                    ctrl_rudder = fromAngleAxis L (- m_roll s3 * 0.001) (Vec3 0 1 0)
                in s3\<lparr>m_pos := (m_pos s3)\<lparr>vy := 0\<rparr>,
                       m_accel := vadd (m_accel s3) (Vec3 0 9.8 0),
                       m_orient := normalize L (qmul L orient3 ctrl_rudder),
                       m_vel := vmulq L vel3 ctrl_rudder\<rparr>)
             else
               (let n = m_airborn s1 + 1
                in s1\<lparr>m_airborn := n,
                       m_landing_info := (if 3200 < sint n then [] else m_landing_info s1)\<rparr>))
      in s2\<lparr>m_vel := vadd (m_vel s2) (vscale (m_accel s2) (m_DT s2))\<rparr>)"

text \<open>The three values \<^verbatim>\<open>m_orient\<close> is assigned inside \<^verbatim>\<open>Advance\<close>, each a composition
  \<^verbatim>\<open>m_orient *= delta\<close> followed by \<^verbatim>\<open>m_orient.normalize()\<close>: after the stability
  rotation (lines 277-282, skipped when the rotation is NaN), after the roll control
  (lines 285-287), and after the ground alignment and rudder (lines 308-310).\<close>

definition stabilized_orient :: "qlib \<Rightarrow> Sample \<Rightarrow> Quaternion" where
  "stabilized_orient L s =
     (case fromRotationFromTo L (body_fwd L s) (steered_vaxis L s) 0.001 of
        None \<Rightarrow> m_orient s
      | Some angvel \<Rightarrow> normalize L (qmul L (m_orient s) angvel))"

definition rolled_orient :: "qlib \<Rightarrow> Sample \<Rightarrow> Quaternion" where
  "rolled_orient L s =
     (let ctrl_roll = fromAngleAxis L (m_roll s * 0.001)
                        (vmulq L (Vec3 1 0 0) (stabilized_orient L s))
      in normalize L (qmul L (stabilized_orient L s) ctrl_roll))"

definition grounded_orient :: "qlib \<Rightarrow> Sample \<Rightarrow> Quaternion" where
  "grounded_orient L s =
     (let fwd = body_fwd L s;
          orient3 = fromDirectionAndRoll L (Vec3 (vx fwd) 0 (vz fwd)) 0;
          ctrl_rudder = fromAngleAxis L (- m_roll s * 0.001) (Vec3 0 1 0)
      in normalize L (qmul L orient3 ctrl_rudder))"

subsection \<open>Sample::init and the host loop\<close>

text \<open>Lines 116-133. \<^verbatim>\<open>Sample obj\<close> is a global, so the members \<^verbatim>\<open>init\<close> does not
  set start from zero (an empty string, \<^verbatim>\<open>false\<close>).\<close>

definition init :: "qlib \<Rightarrow> Sample" where
  "init L =
     \<lparr>m_pos = Vec3 0 10 0, m_vel = Vec3 0 0 200,
      m_orient = fromDirectionAndRoll L (Vec3 0 0 1) 0,
      m_roll = 0, m_pitch = 0, m_pitch_adv = 0, m_power = 3,
      m_lift = Vec3 0 0 0, m_thrust = Vec3 0 0 0, m_drag = Vec3 0 0 0, m_force = Vec3 0 0 0,
      m_accel = Vec3 0 0 0, m_speed = 0, m_max_speed = 500.0, m_aoa = 0, m_DT = 0.001,
      m_flaps = 0, m_wind = Vec3 0 0 0, m_runway_length = 2000, m_runway_width = 50,
      m_landing_info = [], m_landing_status = False, m_airborn = 1\<rparr>"

text \<open>One tick of the host (the spec's control flow): it stores the current control values
  and calls \<^verbatim>\<open>Advance\<close> once. \<open>run\<close> is a sequence of ticks.\<close>

record Controls =
  roll :: real
  pitch :: real
  power :: real
  flaps :: real

definition tick :: "qlib \<Rightarrow> Sample \<Rightarrow> Controls \<Rightarrow> Sample" where
  "tick L s c = Advance L (s\<lparr>m_roll := roll c, m_pitch := pitch c, m_power := power c,
                               m_flaps := flaps c\<rparr>)"

definition run :: "qlib \<Rightarrow> Controls list \<Rightarrow> Sample \<Rightarrow> Sample" where
  "run L cs s = foldl (tick L) s cs"

subsection \<open>A reference quaternion library\<close>

text \<open>The concrete examples are evaluated with one concrete library: the usual quaternion
  arithmetic over the reals.\<close>

text \<open>Modelled from the spec: the vector product of the absent vector header.\<close>

definition Cross :: "Vec3F \<Rightarrow> Vec3F \<Rightarrow> Vec3F" where
  "Cross a b = \<lparr>vx = vy a * vz b - vz a * vy b,
                vy = vz a * vx b - vx a * vz b,
                vz = vx a * vy b - vy a * vx b\<rparr>"

definition Quat :: "real \<Rightarrow> real \<Rightarrow> real \<Rightarrow> real \<Rightarrow> Quaternion" where
  "Quat a b c d = \<lparr>qX = a, qY = b, qZ = c, qW = d\<rparr>"

text \<open>Modelled from the spec: quaternion composition (absent \<^verbatim>\<open>quaternion.h\<close>), the
  Hamilton product, so that \<open>p\<close> composed with \<open>q\<close> applies \<open>q\<close> in the frame of \<open>p\<close>.\<close>

definition q_mul :: "Quaternion \<Rightarrow> Quaternion \<Rightarrow> Quaternion" where
  "q_mul p q =
     \<lparr>qX = qW p * qX q + qX p * qW q + qY p * qZ q - qZ p * qY q,
      qY = qW p * qY q - qX p * qZ q + qY p * qW q + qZ p * qX q,
      qZ = qW p * qZ q + qX p * qY q - qY p * qX q + qZ p * qW q,
      qW = qW p * qW q - qX p * qX q - qY p * qY q - qZ p * qZ q\<rparr>"

text \<open>Modelled from the spec: a vector rotated by a quaternion (absent
  \<^verbatim>\<open>quaternion.h\<close>), \<open>v + 2w (u \<times> v) + 2 u \<times> (u \<times> v)\<close> for the quaternion \<open>(u, w)\<close>.\<close>

definition q_rotate :: "Vec3F \<Rightarrow> Quaternion \<Rightarrow> Vec3F" where
  "q_rotate v q =
     (let u = Vec3 (qX q) (qY q) (qZ q);
          uv = Cross u v;
          uuv = Cross u uv
      in vadd (vadd v (vscale uv (2 * qW q))) (vscale uuv 2))"

definition q_norm2 :: "Quaternion \<Rightarrow> real" where
  "q_norm2 q = qX q * qX q + qY q * qY q + qZ q * qZ q + qW q * qW q"

text \<open>Modelled from the spec: renormalisation (absent \<^verbatim>\<open>quaternion.h\<close>), the quaternion
  divided by its length.\<close>

definition q_normalize :: "Quaternion \<Rightarrow> Quaternion" where
  "q_normalize q =
     (let n = q_norm2 q
      in if n = 1 then q
         else Quat (qX q / sqrt n) (qY q / sqrt n) (qZ q / sqrt n) (qW q / sqrt n))"

text \<open>Modelled from the spec: "standard axis-angle quaternion construction" (absent
  \<^verbatim>\<open>quaternion.h\<close>).\<close>

definition q_fromAngleAxis :: "real \<Rightarrow> Vec3F \<Rightarrow> Quaternion" where
  "q_fromAngleAxis a ax =
     (let h = 0.5 * a
      in Quat (sin h * vx ax) (sin h * vy ax) (sin h * vz ax) (cos h))"

text \<open>Modelled from the spec: "the quaternion for the shortest rotation from vector
  \<open>from\<close> to vector \<open>to\<close>, then scale its rotation angle by \<open>damping\<close>", with the
  antiparallel case signalled (absent \<^verbatim>\<open>quaternion.h\<close>).\<close>

definition q_fromRotationFromTo :: "Vec3F \<Rightarrow> Vec3F \<Rightarrow> real \<Rightarrow> Quaternion option" where
  "q_fromRotationFromTo a b f =
     (let axis = Cross a b; d = Dot a b
      in if Length axis = 0 then (if d < 0 then None else Some (Quat 0 0 0 1))
         else Some (q_fromAngleAxis (arccos (d / (Length a * Length b)) * f) (Normalize axis)))"

text \<open>Modelled from the spec: "a unit quaternion whose body-forward axis aligns with
  \<open>direction\<close> and whose roll about that axis is \<open>roll\<close>" (absent \<^verbatim>\<open>quaternion.h\<close>):
  the shortest rotation of the body forward axis \<open>(1,0,0)\<close> onto the direction, composed
  with the roll about the body forward axis.\<close>

definition q_fromDirectionAndRoll :: "Vec3F \<Rightarrow> real \<Rightarrow> Quaternion" where
  "q_fromDirectionAndRoll d r =
     (let n = Normalize d;
          q0 = (if vx n = - 1 then Quat 0 1 0 0
                else q_normalize (Quat 0 (- vz n) (vy n) (1 + vx n)))
      in q_mul q0 (q_fromAngleAxis r (Vec3 1 0 0)))"

definition atan2 :: "real \<Rightarrow> real \<Rightarrow> real" where
  "atan2 b a =
     (if 0 < a then arctan (b / a)
      else if a < 0 then (if 0 \<le> b then arctan (b / a) + pi else arctan (b / a) - pi)
      else if 0 < b then pi / 2 else if b < 0 then - pi / 2 else 0)"

text \<open>Modelled from the spec: "extract roll/pitch/heading angles in degrees", x-angle
  roll, y-angle pitch, z-angle heading (absent \<^verbatim>\<open>quaternion.h\<close>).\<close>

definition q_toEuler :: "Quaternion \<Rightarrow> Vec3F" where
  "q_toEuler q =
     (let f = q_rotate (Vec3 1 0 0) q;
          u = q_rotate (Vec3 0 1 0) q;
          r = q_rotate (Vec3 0 0 1) q
      in Vec3 (atan2 (- vy r) (vy u) * RADtoDEG)
              (arcsin (vy f) * RADtoDEG)
              (atan2 (vz f) (vx f) * RADtoDEG))"

text \<open>printf's \<^verbatim>\<open>%4.1f\<close> of a number: the sign of the number (a minus sign for every
  negative number, also when the digits round to zero), then its magnitude with one
  decimal, rounded to the nearest tenth and at a tie to the even one, the whole padded on
  the left with spaces to four characters.\<close>

fun dec :: "nat \<Rightarrow> string" where
  "dec n = (if n < 10 then [''0123456789'' ! n]
            else dec (n div 10) @ [''0123456789'' ! (n mod 10)])"

definition round_half_even :: "real \<Rightarrow> int" where
  "round_half_even x =
     (let fl = \<lfloor>x\<rfloor>
      in if x - of_int fl < 1 / 2 then fl
         else if 1 / 2 < x - of_int fl then fl + 1
         else if even fl then fl else fl + 1)"

definition fixed_1 :: "bool \<Rightarrow> nat \<Rightarrow> string" where
  "fixed_1 neg r = (if neg then ''-'' else []) @ dec (r div 10) @ ''.'' @ dec (r mod 10)"

definition pad_left :: "nat \<Rightarrow> string \<Rightarrow> string" where
  "pad_left w t = replicate (w - length t) (CHR '' '') @ t"

definition fmt_4_1f :: "real \<Rightarrow> string" where
  "fmt_4_1f a = pad_left 4 (fixed_1 (a < 0) (nat (round_half_even (\<bar>a\<bar> * 10))))"

definition stdlib :: qlib where
  "stdlib =
     \<lparr>vmulq = q_rotate, qmul = q_mul, normalize = q_normalize,
      fromAngleAxis = q_fromAngleAxis, fromRotationFromTo = q_fromRotationFromTo,
      fromDirectionAndRoll = q_fromDirectionAndRoll, toEuler = q_toEuler,
      fmt_f = fmt_4_1f, div_zero = (\<lambda>v. Vec3 0 0 0)\<rparr>"

text \<open>A plane standing on the runway: the initial state moved to the ground, at rest.\<close>

definition parked :: Sample where
  "parked = (init stdlib)\<lparr>m_pos := Vec3 0 0 0, m_vel := Vec3 0 0 0, m_airborn := 0\<rparr>"

text \<open>The landing example of the spec: more than 2000 ticks airborne, sink rate 1,
  position \<open>(0,0,100)\<close> on the 50 by 2000 runway, at a given speed, graded with an Euler
  extraction that reports roll 2 and pitch 3 degrees.\<close>

definition euler_lib :: qlib where
  "euler_lib = stdlib\<lparr>toEuler := (\<lambda>q. Vec3 2 3 0)\<rparr>"

definition touchdown :: "real \<Rightarrow> Sample" where
  "touchdown sp = parked\<lparr>m_speed := sp, m_vel := Vec3 0 (- 1) sp, m_pos := Vec3 0 0 100,
                          m_airborn := 2001\<rparr>"



text \<open>A library that rounds as floats may: composition and renormalisation both return
  the exact result scaled by 1.0000001, so a composition alone does not keep unit length
  and a renormalised quaternion has length 1.0000001.\<close>

definition q_scale :: "Quaternion \<Rightarrow> real \<Rightarrow> Quaternion" where
  "q_scale q k = Quat (qX q * k) (qY q * k) (qZ q * k) (qW q * k)"

definition float_lib :: qlib where
  "float_lib = stdlib\<lparr>qmul := (\<lambda>p q. q_scale (q_mul p q) 1.0000001),
                       normalize := (\<lambda>q. q_scale (q_normalize q) 1.0000001)\<rparr>"

text \<open>Two states for the NaN guards, both airborne with the identity orientation (the body
  forward axis is the world x axis): \<open>cruise\<close> flies forward at 200, \<open>reversed\<close> moves
  tail first at 200. And a library whose vector rotation rounds up, by the factor
  1.0000001, as a float rotation may.\<close>

definition round_up_lib :: qlib where
  "round_up_lib = stdlib\<lparr>vmulq := (\<lambda>v q. vscale (q_rotate v q) 1.0000001)\<rparr>"

definition cruise :: Sample where
  "cruise = (init stdlib)\<lparr>m_orient := Quat 0 0 0 1, m_vel := Vec3 200 0 0\<rparr>"

definition reversed :: Sample where
  "reversed = (init stdlib)\<lparr>m_orient := Quat 0 0 0 1, m_vel := Vec3 (- 200) 0 0\<rparr>"

subsection \<open>The contract of the quaternion library\<close>

definition q_length :: "Quaternion \<Rightarrow> real" where
  "q_length q = sqrt (q_norm2 q)"

text \<open>Modelled from the spec: what the orientation primitives of the absent
  \<^verbatim>\<open>quaternion.h\<close> promise about lengths. Renormalisation gives unit length (of a
  quaternion that is not zero); composition multiplies lengths; the axis-angle
  construction has the scalar part \<open>cos (angle / 2)\<close>, so it is not zero for an angle
  below \<open>\<pi>\<close>; a rotation between vectors that is not NaN is a unit quaternion, and so is
  the quaternion built from a direction and a roll ("build a unit quaternion").\<close>

definition unit_quaternions :: "qlib \<Rightarrow> bool" where
  "unit_quaternions L \<longleftrightarrow>
     (\<forall>q. q_norm2 q \<noteq> 0 \<longrightarrow> q_norm2 (normalize L q) = 1) \<and>
     (\<forall>p q. q_norm2 (qmul L p q) = q_norm2 p * q_norm2 q) \<and>
     (\<forall>a ax. \<bar>a\<bar> < pi \<longrightarrow> q_norm2 (fromAngleAxis L a ax) \<noteq> 0) \<and>
     (\<forall>a b f q. fromRotationFromTo L a b f = Some q \<longrightarrow> q_norm2 q = 1) \<and>
     (\<forall>d r. q_norm2 (fromDirectionAndRoll L d r) = 1)"

text \<open>Modelled from the spec: the part of that contract that does not need exact
  arithmetic ("renormalization after every composition to prevent drift"). A
  renormalised quaternion has length within \<open>eps\<close> of 1, and so has the quaternion built
  from a direction and a roll; about a composition nothing is promised but that it is
  not zero when its factors are not, so its length may drift; the axis-angle
  construction (for an angle below \<open>\<pi>\<close>) and a rotation between vectors that is not NaN
  are not zero.\<close>

definition renormalizing :: "real \<Rightarrow> qlib \<Rightarrow> bool" where
  "renormalizing eps L \<longleftrightarrow>
     0 \<le> eps \<and> eps < 1 \<and>
     (\<forall>q. q_norm2 q \<noteq> 0 \<longrightarrow> \<bar>q_length (normalize L q) - 1\<bar> \<le> eps) \<and>
     (\<forall>p q. q_norm2 p \<noteq> 0 \<and> q_norm2 q \<noteq> 0 \<longrightarrow> q_norm2 (qmul L p q) \<noteq> 0) \<and>
     (\<forall>a ax. \<bar>a\<bar> < pi \<longrightarrow> q_norm2 (fromAngleAxis L a ax) \<noteq> 0) \<and>
     (\<forall>a b f q. fromRotationFromTo L a b f = Some q \<longrightarrow> q_norm2 q \<noteq> 0) \<and>
     (\<forall>d r. \<bar>q_length (fromDirectionAndRoll L d r) - 1\<bar> \<le> eps)"

text \<open>Modelled from the spec: what the rotations of the absent \<^verbatim>\<open>quaternion.h\<close> promise
  about vectors. The body axes of a unit orientation (the world x and y axes rotated by
  it) are orthonormal; a rotation about the world up axis keeps a horizontal vector
  horizontal, keeps lengths, and turns a vector by the given angle (its scalar product with
  the original is \<open>cos a\<close> times the horizontal part plus the vertical part).\<close>

definition rotations :: "qlib \<Rightarrow> bool" where
  "rotations L \<longleftrightarrow>
     (\<forall>q. q_norm2 q = 1 \<longrightarrow>
        Dot (vmulq L (Vec3 1 0 0) q) (vmulq L (Vec3 1 0 0) q) = 1 \<and>
        Dot (vmulq L (Vec3 0 1 0) q) (vmulq L (Vec3 0 1 0) q) = 1 \<and>
        Dot (vmulq L (Vec3 1 0 0) q) (vmulq L (Vec3 0 1 0) q) = 0) \<and>
     (\<forall>a v. vy v = 0 \<longrightarrow> vy (vmulq L v (fromAngleAxis L a (Vec3 0 1 0))) = 0) \<and>
     (\<forall>a v. Dot (vmulq L v (fromAngleAxis L a (Vec3 0 1 0))) v =
        cos a * (vx v * vx v + vz v * vz v) + vy v * vy v) \<and>
     (\<forall>a v. Dot (vmulq L v (fromAngleAxis L a (Vec3 0 1 0)))
              (vmulq L v (fromAngleAxis L a (Vec3 0 1 0))) = Dot v v)"

text \<open>The ranges of the control inputs (the spec's control flow), and the environment
  that \<^verbatim>\<open>init\<close> sets and nothing in the program changes: no wind, top speed 500, time
  step 0.001.\<close>

definition controls_ok :: "Controls \<Rightarrow> bool" where
  "controls_ok c \<longleftrightarrow>
     \<bar>roll c\<bar> \<le> 1 \<and> \<bar>pitch c\<bar> \<le> 1 \<and> 0 \<le> power c \<and> power c \<le> 10 \<and> (flaps c = 0 \<or> flaps c = 1)"

definition calm :: "Sample \<Rightarrow> bool" where
  "calm s \<longleftrightarrow> m_wind s = Vec3 0 0 0 \<and> m_max_speed s = 500 \<and> m_DT s = 0.001"

section \<open>Properties\<close>

subsection \<open>Fields of the state after CheckLanding and Advance\<close>

lemma CheckLanding_airborn: "m_airborn (CheckLanding L s) = 0"
  by (simp add: CheckLanding_def Let_def)

lemma CheckLanding_skip:
  "\<not> 2000 < sint (m_airborn s) \<Longrightarrow> CheckLanding L s = s\<lparr>m_airborn := 0\<rparr>"
  by (simp add: CheckLanding_def Let_def)

lemma CheckLanding_status:
  "2000 < sint (m_airborn s) \<Longrightarrow>
   m_landing_status (CheckLanding L s) =
     (m_speed s < 80 \<and> \<bar>vy (m_vel s)\<bar> < 2 \<and> \<bar>vy (toEuler L (m_orient s))\<bar> < 5 \<and>
      \<bar>vx (toEuler L (m_orient s))\<bar> < 5 \<and>
      \<bar>vx (m_pos s)\<bar> < m_runway_width s \<and> \<bar>vz (m_pos s)\<bar> < m_runway_length s)"
  by (auto simp add: CheckLanding_def Let_def)

lemma CheckLanding_info:
  "2000 < sint (m_airborn s) \<Longrightarrow>
   m_landing_info (CheckLanding L s) =
     landing_msg L (m_landing_status (CheckLanding L s))
       (m_speed s) (m_speed s < 80)
       (vy (m_vel s)) (\<bar>vy (m_vel s)\<bar> < 2)
       \<bar>vy (toEuler L (m_orient s))\<bar> (\<bar>vy (toEuler L (m_orient s))\<bar> < 5)
       \<bar>vx (toEuler L (m_orient s))\<bar> (\<bar>vx (toEuler L (m_orient s))\<bar> < 5)
       (\<bar>vx (m_pos s)\<bar> < m_runway_width s \<and> \<bar>vz (m_pos s)\<bar> < m_runway_length s)"
proof -
  have runway: "(vx (m_pos s) > - m_runway_width s \<and> vx (m_pos s) < m_runway_width s \<and>
      vz (m_pos s) > - m_runway_length s \<and> vz (m_pos s) < m_runway_length s) =
     (\<bar>vx (m_pos s)\<bar> < m_runway_width s \<and> \<bar>vz (m_pos s)\<bar> < m_runway_length s)"
    by auto
  assume "2000 < sint (m_airborn s)"
  then show ?thesis
    by (simp add: CheckLanding_def Let_def runway)
qed

lemma Advance_pitch_adv: "m_pitch_adv (Advance L s) = next_pitch_adv s"
  by (simp add: Advance_def CheckLanding_def Let_def)

lemma Advance_speed: "m_speed (Advance L s) = limited_speed s"
  by (simp add: Advance_def CheckLanding_def Let_def)

lemma Advance_airborn_ground: "ground_contact L s \<Longrightarrow> m_airborn (Advance L s) = 0"
  by (simp add: Advance_def CheckLanding_def Let_def)

lemma Advance_airborn_air:
  "\<not> ground_contact L s \<Longrightarrow> m_airborn (Advance L s) = m_airborn s + 1"
  by (simp add: Advance_def Let_def)

lemma Advance_info_air:
  "\<not> ground_contact L s \<Longrightarrow>
   m_landing_info (Advance L s) = (if 3200 < sint (m_airborn s + 1) then [] else m_landing_info s)"
  by (simp add: Advance_def Let_def)

lemma Advance_status_air:
  "\<not> ground_contact L s \<Longrightarrow> m_landing_status (Advance L s) = m_landing_status s"
  by (simp add: Advance_def Let_def)

lemma Advance_landing_graze:
  "ground_contact L s \<Longrightarrow> \<not> 2000 < sint (m_airborn s) \<Longrightarrow>
   m_landing_info (Advance L s) = m_landing_info s \<and>
   m_landing_status (Advance L s) = m_landing_status s"
  by (simp add: Advance_def CheckLanding_def Let_def)

lemma Advance_aoa: "m_aoa (Advance L s) = angle_of_attack L s"
  by (simp add: Advance_def CheckLanding_def Let_def)

lemma Advance_lift:
  "m_lift (Advance L s) =
     vscale (body_up L s)
       ((sin (angle_of_attack L s * 0.2) + flap_lift s) * dynamic_pressure L s * 0.0001 * 0.5)"
  by (simp add: Advance_def CheckLanding_def Let_def)

lemma Advance_drag:
  "m_drag (Advance L s) =
     vscale (vscale (vscale (vscale (steered_vaxis L s) (dynamic_pressure L s)) 0.0001) (- 1))
       (1 + m_flaps s)"
  by (simp add: Advance_def CheckLanding_def Let_def)

lemma Advance_thrust: "m_thrust (Advance L s) = vscale (body_fwd L s) (m_power s)"
  by (simp add: Advance_def CheckLanding_def Let_def)

lemma Advance_force:
  "m_force (Advance L s) =
     vadd (vadd (vadd (Vec3 0 0 0) (m_lift (Advance L s))) (m_drag (Advance L s)))
       (m_thrust (Advance L s))"
  by (simp add: Advance_def CheckLanding_def Let_def)

lemma Advance_accel:
  "m_accel (Advance L s) =
     (let accel0 = vadd (vadd (vdiv (m_force (Advance L s)) 0.1) (Vec3 0 (- 9.8) 0))
                     (vscale (vscale (m_wind s) 1.225) 0.1)
      in if ground_contact L s then vadd accel0 (Vec3 0 9.8 0) else accel0)"
  by (simp add: Advance_def CheckLanding_def Let_def)


lemma Advance_vel:
  "m_vel (Advance L s) =
     vadd (if ground_contact L s
           then vmulq L (vscale ((vscale (steered_vaxis L s) (limited_speed s))\<lparr>vy := 0\<rparr>) 0.9999)
                  (fromAngleAxis L (- m_roll s * 0.001) (Vec3 0 1 0))
           else vscale (steered_vaxis L s) (limited_speed s))
       (vscale (m_accel (Advance L s)) (m_DT s))"
  by (simp add: Advance_def CheckLanding_def Let_def)

lemma Advance_frame:
  "m_wind (Advance L s) = m_wind s \<and> m_max_speed (Advance L s) = m_max_speed s \<and>
   m_DT (Advance L s) = m_DT s \<and> m_roll (Advance L s) = m_roll s \<and>
   m_pitch (Advance L s) = m_pitch s \<and> m_power (Advance L s) = m_power s \<and>
   m_flaps (Advance L s) = m_flaps s \<and> m_runway_length (Advance L s) = m_runway_length s \<and>
   m_runway_width (Advance L s) = m_runway_width s"
  by (simp add: Advance_def CheckLanding_def Let_def)

subsection \<open>When the ground test fires\<close>

lemma abs_div_le_1:
  assumes "\<bar>a\<bar> \<le> n"
  shows "\<bar>a\<bar> / n \<le> (1::real)"
proof (cases "n = 0")
  case True
  then show ?thesis by simp
next
  case False
  with assms have "0 < n" by linarith
  with assms show ?thesis by simp
qed

lemma abs_vy_Normalize: "\<bar>vy (Normalize v)\<bar> \<le> 1"
proof -
  have "\<bar>vy v\<bar>\<^sup>2 \<le> vx v * vx v + vy v * vy v + vz v * vz v"
    by (simp add: power2_eq_square)
  then have "\<bar>vy v\<bar> \<le> sqrt (vx v * vx v + vy v * vy v + vz v * vz v)"
    by (rule real_le_rsqrt)
  then show ?thesis
    unfolding Normalize_def vdiv_def Length_def by (simp add: abs_div_le_1)
qed

lemma Length_nonneg: "0 \<le> Length v"
  by (simp add: Length_def)

lemma limited_speed_le: "limited_speed s \<le> m_max_speed s"
  by (simp add: limited_speed_def Let_def)

lemma limited_speed_nonneg: "0 \<le> m_max_speed s \<Longrightarrow> 0 \<le> limited_speed s"
  by (simp add: limited_speed_def Let_def Length_nonneg)

lemma moved_pos_vy_bounds:
  assumes "0 \<le> m_DT s" "0 \<le> m_max_speed s"
  shows "\<bar>vy (moved_pos L s) - vy (m_pos s)\<bar> \<le> limited_speed s * m_DT s"
proof -
  have "\<bar>vy (steered_vaxis L s)\<bar> \<le> 1"
    by (simp add: steered_vaxis_def Let_def abs_vy_Normalize)
  then have "\<bar>vy (steered_vaxis L s)\<bar> * (limited_speed s * m_DT s) \<le> 1 * (limited_speed s * m_DT s)"
    using assms by (intro mult_right_mono) (simp_all add: limited_speed_nonneg)
  then show ?thesis
    using assms by (simp add: moved_pos_def vadd_def vscale_def abs_mult limited_speed_nonneg mult.assoc)
qed

lemma airborne_if:
  assumes "0 \<le> m_DT s" "0 \<le> m_max_speed s" "0.00001 + m_max_speed s * m_DT s < vy (m_pos s)"
  shows "\<not> ground_contact L s"
proof -
  have "limited_speed s * m_DT s \<le> m_max_speed s * m_DT s"
    using assms by (intro mult_right_mono limited_speed_le)
  with moved_pos_vy_bounds[OF assms(1,2), of L] assms(3) show ?thesis
    by (simp add: ground_contact_def)
qed


lemma limited_speed_rest: "m_vel s = Vec3 0 0 0 \<Longrightarrow> 0 \<le> m_max_speed s \<Longrightarrow> limited_speed s = 0"
  by (simp add: limited_speed_def Let_def Length_def Vec3_def)

lemma ground_at_rest:
  "m_vel s = Vec3 0 0 0 \<Longrightarrow> 0 \<le> m_max_speed s \<Longrightarrow> vy (m_pos s) \<le> 0.00001 \<Longrightarrow> ground_contact L s"
  by (simp add: ground_contact_def moved_pos_def limited_speed_rest vadd_def vscale_def)

lemma ground_parked: "ground_contact L parked"
  by (rule ground_at_rest) (simp_all add: parked_def init_def Vec3_def)

lemma airborne_init: "\<not> ground_contact L (init L)"
  by (rule airborne_if) (simp_all add: init_def Vec3_def)

subsection \<open>The pitch accumulator\<close>

lemma next_pitch_adv_bound:
  "\<bar>m_pitch_adv s\<bar> \<le> 10 \<Longrightarrow> \<bar>m_pitch s\<bar> \<le> 1 \<Longrightarrow> \<bar>next_pitch_adv s\<bar> \<le> 10"
  by (simp add: next_pitch_adv_def Let_def abs_le_iff)

lemma tick_pitch_adv_bound:
  "\<bar>m_pitch_adv s\<bar> \<le> 10 \<Longrightarrow> \<bar>pitch c\<bar> \<le> 1 \<Longrightarrow> \<bar>m_pitch_adv (tick L s c)\<bar> \<le> 10"
  by (simp add: tick_def Advance_pitch_adv next_pitch_adv_bound)

lemma run_pitch_adv_bound:
  "\<bar>m_pitch_adv s\<bar> \<le> 10 \<Longrightarrow> \<forall>c\<in>set cs. \<bar>pitch c\<bar> \<le> 1 \<Longrightarrow> \<bar>m_pitch_adv (run L cs s)\<bar> \<le> 10"
  unfolding run_def
proof (induction cs arbitrary: s)
  case Nil
  then show ?case by simp
next
  case (Cons c cs)
  have "\<bar>m_pitch_adv (tick L s c)\<bar> \<le> 10"
    using Cons.prems by (simp add: tick_pitch_adv_bound)
  then show ?case
    using Cons.IH[of "tick L s c"] Cons.prems by simp
qed

lemma pitch_adv_contraction:
  "0 < vy (m_pos s) \<Longrightarrow>
   m_pitch_adv (Advance L s) - 10 * m_pitch s = 0.9995 * (m_pitch_adv s - 10 * m_pitch s)"
  by (simp add: Advance_pitch_adv next_pitch_adv_def Let_def algebra_simps)

subsection \<open>Ground contact\<close>





lemma Advance_accel_split:
  "m_accel (Advance L s) =
     vadd (vadd (vadd (vdiv (vadd (vadd (m_lift (Advance L s)) (m_drag (Advance L s)))
                               (m_thrust (Advance L s))) 0.1)
                   (Vec3 0 (- 9.8) 0))
             (vscale (m_wind s) (1.225 * 0.1)))
       (if ground_contact L s then Vec3 0 9.8 0 else Vec3 0 0 0)"
  by (simp add: Advance_accel Advance_force Let_def vadd_def vdiv_def vscale_def Vec3_def)

subsection \<open>The orientation stays a unit quaternion\<close>

lemma Advance_orient:
  "m_orient (Advance L s) =
     (if ground_contact L s
      then normalize L (qmul L (fromDirectionAndRoll L (Vec3 (vx (body_fwd L s)) 0 (vz (body_fwd L s))) 0)
                          (fromAngleAxis L (- m_roll s * 0.001) (Vec3 0 1 0)))
      else (let orient1 = (case fromRotationFromTo L (body_fwd L s) (steered_vaxis L s) 0.001 of
                             None \<Rightarrow> m_orient s
                           | Some angvel \<Rightarrow> normalize L (qmul L (m_orient s) angvel))
            in normalize L (qmul L orient1
                 (fromAngleAxis L (m_roll s * 0.001) (vmulq L (Vec3 1 0 0) orient1)))))"
  by (simp add: Advance_def CheckLanding_def Let_def)

lemma Advance_orient_steps:
  "m_orient (Advance L s) = (if ground_contact L s then grounded_orient L s else rolled_orient L s)"
  by (simp add: Advance_orient grounded_orient_def rolled_orient_def stabilized_orient_def Let_def)

lemma small_angle: "\<bar>r\<bar> \<le> 1 \<Longrightarrow> \<bar>r * 0.001\<bar> < pi"
  using pi_ge_two by (simp add: abs_mult)

lemma normalize_compose_unit:
  assumes "unit_quaternions L" "q_norm2 p = 1" "\<bar>a\<bar> < pi"
  shows "q_norm2 (normalize L (qmul L p (fromAngleAxis L a ax))) = 1"
proof -
  have "q_norm2 (fromAngleAxis L a ax) \<noteq> 0"
    using assms(1,3) by (simp add: unit_quaternions_def)
  then have "q_norm2 (qmul L p (fromAngleAxis L a ax)) \<noteq> 0"
    using assms(1,2) by (simp add: unit_quaternions_def)
  then show ?thesis
    using assms(1) by (simp add: unit_quaternions_def)
qed

lemma Advance_orient_unit:
  assumes L: "unit_quaternions L" and q: "q_norm2 (m_orient s) = 1" and r: "\<bar>m_roll s\<bar> \<le> 1"
  shows "q_norm2 (m_orient (Advance L s)) = 1"
proof (cases "ground_contact L s")
  case True
  have "\<bar>- m_roll s * 0.001\<bar> < pi"
    using small_angle[OF r] by simp
  moreover have "q_norm2 (fromDirectionAndRoll L (Vec3 (vx (body_fwd L s)) 0 (vz (body_fwd L s))) 0) = 1"
    using L by (simp add: unit_quaternions_def)
  ultimately show ?thesis
    unfolding Advance_orient if_P[OF True] by (rule normalize_compose_unit[OF L, rotated])
next
  case False
  have "q_norm2 (case fromRotationFromTo L (body_fwd L s) (steered_vaxis L s) 0.001 of
                   None \<Rightarrow> m_orient s
                 | Some angvel \<Rightarrow> normalize L (qmul L (m_orient s) angvel)) = 1"
    using L q by (simp add: unit_quaternions_def split: option.split)
  then show ?thesis
    unfolding Advance_orient if_not_P[OF False] Let_def
    by (rule normalize_compose_unit[OF L _ small_angle[OF r]])
qed

lemma run_snoc: "run L (cs @ [c]) s = tick L (run L cs s) c"
  by (simp add: run_def)

lemma tick_orient_unit:
  "unit_quaternions L \<Longrightarrow> q_norm2 (m_orient s) = 1 \<Longrightarrow> \<bar>roll c\<bar> \<le> 1 \<Longrightarrow>
   q_norm2 (m_orient (tick L s c)) = 1"
  by (simp add: tick_def Advance_orient_unit)

lemma run_orient_unit:
  "unit_quaternions L \<Longrightarrow> q_norm2 (m_orient s) = 1 \<Longrightarrow> \<forall>c\<in>set cs. \<bar>roll c\<bar> \<le> 1 \<Longrightarrow>
   q_norm2 (m_orient (run L cs s)) = 1"
proof (induction cs rule: rev_induct)
  case Nil
  then show ?case by (simp add: run_def)
next
  case (snoc c cs)
  then show ?case by (simp add: run_snoc tick_orient_unit)
qed

lemma init_orient_unit: "unit_quaternions L \<Longrightarrow> q_norm2 (m_orient (init L)) = 1"
  by (simp add: unit_quaternions_def init_def)

subsection \<open>The orientation stays near unit length when compositions drift\<close>

lemma near_unit_nonzero:
  assumes "eps < 1" "\<bar>q_length q - 1\<bar> \<le> eps"
  shows "q_norm2 q \<noteq> 0"
proof
  assume "q_norm2 q = 0"
  then have "q_length q = 0" by (simp add: q_length_def)
  with assms show False by simp
qed

lemma renormalize_compose:
  assumes "renormalizing eps L" "q_norm2 p \<noteq> 0" "q_norm2 q \<noteq> 0"
  shows "\<bar>q_length (normalize L (qmul L p q)) - 1\<bar> \<le> eps"
proof -
  have "q_norm2 (qmul L p q) \<noteq> 0"
    using assms by (simp add: renormalizing_def)
  then show ?thesis
    using assms(1) by (simp add: renormalizing_def)
qed

lemma stabilized_orient_near:
  assumes L: "renormalizing eps L" and q: "\<bar>q_length (m_orient s) - 1\<bar> \<le> eps"
  shows "\<bar>q_length (stabilized_orient L s) - 1\<bar> \<le> eps"
proof (cases "fromRotationFromTo L (body_fwd L s) (steered_vaxis L s) 0.001")
  case None
  with q show ?thesis by (simp add: stabilized_orient_def)
next
  case (Some angvel)
  have "eps < 1" using L by (simp add: renormalizing_def)
  then have "q_norm2 (m_orient s) \<noteq> 0"
    using q by (rule near_unit_nonzero)
  moreover have "q_norm2 angvel \<noteq> 0"
    using L Some unfolding renormalizing_def by blast
  ultimately show ?thesis
    using renormalize_compose[OF L] Some by (simp add: stabilized_orient_def)
qed

lemma rolled_orient_near:
  assumes L: "renormalizing eps L" and q: "\<bar>q_length (m_orient s) - 1\<bar> \<le> eps"
    and r: "\<bar>m_roll s\<bar> \<le> 1"
  shows "\<bar>q_length (rolled_orient L s) - 1\<bar> \<le> eps"
proof -
  have "eps < 1" using L by (simp add: renormalizing_def)
  then have "q_norm2 (stabilized_orient L s) \<noteq> 0"
    using stabilized_orient_near[OF L q] by (rule near_unit_nonzero)
  moreover have "q_norm2 (fromAngleAxis L (m_roll s * 0.001)
      (vmulq L (Vec3 1 0 0) (stabilized_orient L s))) \<noteq> 0"
    using L small_angle[OF r] by (simp add: renormalizing_def)
  ultimately show ?thesis
    unfolding rolled_orient_def Let_def by (rule renormalize_compose[OF L])
qed

lemma grounded_orient_near:
  assumes L: "renormalizing eps L" and r: "\<bar>m_roll s\<bar> \<le> 1"
  shows "\<bar>q_length (grounded_orient L s) - 1\<bar> \<le> eps"
proof -
  have e: "eps < 1" using L by (simp add: renormalizing_def)
  have "\<bar>q_length (fromDirectionAndRoll L (Vec3 (vx (body_fwd L s)) 0 (vz (body_fwd L s))) 0) - 1\<bar> \<le> eps"
    using L by (simp add: renormalizing_def)
  with e have "q_norm2 (fromDirectionAndRoll L (Vec3 (vx (body_fwd L s)) 0 (vz (body_fwd L s))) 0) \<noteq> 0"
    by (rule near_unit_nonzero)
  moreover have "\<bar>- m_roll s * 0.001\<bar> < pi"
    using small_angle[OF r] by simp
  then have "q_norm2 (fromAngleAxis L (- m_roll s * 0.001) (Vec3 0 1 0)) \<noteq> 0"
    using L by (simp add: renormalizing_def)
  ultimately show ?thesis
    unfolding grounded_orient_def Let_def by (rule renormalize_compose[OF L])
qed

lemma Advance_orient_near:
  assumes "renormalizing eps L" "\<bar>q_length (m_orient s) - 1\<bar> \<le> eps" "\<bar>m_roll s\<bar> \<le> 1"
  shows "\<bar>q_length (m_orient (Advance L s)) - 1\<bar> \<le> eps"
  using assms by (simp add: Advance_orient_steps rolled_orient_near grounded_orient_near)

lemma run_orient_near:
  "renormalizing eps L \<Longrightarrow> \<bar>q_length (m_orient s) - 1\<bar> \<le> eps \<Longrightarrow> \<forall>c\<in>set cs. \<bar>roll c\<bar> \<le> 1 \<Longrightarrow>
   \<bar>q_length (m_orient (run L cs s)) - 1\<bar> \<le> eps"
proof (induction cs rule: rev_induct)
  case Nil
  then show ?case by (simp add: run_def)
next
  case (snoc c cs)
  then show ?case by (simp add: run_snoc tick_def Advance_orient_near)
qed

lemma init_orient_near: "renormalizing eps L \<Longrightarrow> \<bar>q_length (m_orient (init L)) - 1\<bar> \<le> eps"
  by (simp add: renormalizing_def init_def)

lemma unit_renormalizing: "unit_quaternions L \<Longrightarrow> renormalizing 0 L"
  unfolding unit_quaternions_def renormalizing_def q_length_def
  by simp

subsection \<open>The reference library meets the contract\<close>

lemma q_norm2_nonneg: "0 \<le> q_norm2 q"
  by (simp add: q_norm2_def)

lemma q_norm2_normalize: "q_norm2 q \<noteq> 0 \<Longrightarrow> q_norm2 (q_normalize q) = 1"
proof -
  assume n: "q_norm2 q \<noteq> 0"
  define r where "r = sqrt (q_norm2 q)"
  have rr: "r * r = q_norm2 q"
    by (simp add: r_def q_norm2_nonneg)
  have "q_norm2 (Quat (qX q / r) (qY q / r) (qZ q / r) (qW q / r)) = q_norm2 q / (r * r)"
    by (simp add: q_norm2_def Quat_def add_divide_distrib)
  also have "\<dots> = 1"
    using n by (simp add: rr)
  finally show ?thesis
    using n by (simp add: q_normalize_def Let_def r_def)
qed

lemma q_norm2_mul: "q_norm2 (q_mul p q) = q_norm2 p * q_norm2 q"
  by (simp add: q_norm2_def q_mul_def) algebra

lemma q_norm2_fromAngleAxis:
  "q_norm2 (q_fromAngleAxis a ax) = (sin (a / 2))\<^sup>2 * Dot ax ax + (cos (a / 2))\<^sup>2"
  by (simp add: q_norm2_def q_fromAngleAxis_def Let_def Quat_def Dot_def power2_eq_square algebra_simps)

lemma q_fromAngleAxis_nonzero: "\<bar>a\<bar> < pi \<Longrightarrow> q_norm2 (q_fromAngleAxis a ax) \<noteq> 0"
proof -
  assume "\<bar>a\<bar> < pi"
  then have "0 < cos (a / 2)"
    by (intro cos_gt_zero_pi) (simp_all add: abs_less_iff)
  then have "0 < (cos (a / 2))\<^sup>2" by simp
  moreover have "0 \<le> (sin (a / 2))\<^sup>2 * Dot ax ax"
    by (simp add: Dot_def)
  ultimately have "0 < (sin (a / 2))\<^sup>2 * Dot ax ax + (cos (a / 2))\<^sup>2"
    by (intro add_nonneg_pos)
  then show ?thesis
    by (simp add: q_norm2_fromAngleAxis)
qed

lemma Dot_Normalize: "Length v \<noteq> 0 \<Longrightarrow> Dot (Normalize v) (Normalize v) = 1"
proof -
  assume n: "Length v \<noteq> 0"
  have sq: "Length v * Length v = vx v * vx v + vy v * vy v + vz v * vz v"
    by (simp add: Length_def)
  have "Dot (Normalize v) (Normalize v) = (vx v * vx v + vy v * vy v + vz v * vz v) / (Length v * Length v)"
    by (simp add: Dot_def Normalize_def vdiv_def add_divide_distrib)
  then show ?thesis using n by (simp add: Length_def)
qed

lemma q_fromAngleAxis_unit: "Dot ax ax = 1 \<Longrightarrow> q_norm2 (q_fromAngleAxis a ax) = 1"
  by (simp add: q_norm2_fromAngleAxis)

lemma q_fromRotationFromTo_unit: "q_fromRotationFromTo a b f = Some q \<Longrightarrow> q_norm2 q = 1"
  by (auto simp add: q_fromRotationFromTo_def Let_def q_fromAngleAxis_unit Dot_Normalize
      split: if_splits) (simp add: q_norm2_def Quat_def)

lemma q_fromDirectionAndRoll_unit: "q_norm2 (q_fromDirectionAndRoll d r) = 1"
proof -
  define n where "n = Normalize d"
  have x: "q_norm2 (q_fromAngleAxis r (Vec3 1 0 0)) = 1"
    by (rule q_fromAngleAxis_unit) (simp add: Dot_def Vec3_def)
  have "q_norm2 (if vx n = - 1 then Quat 0 1 0 0
                 else q_normalize (Quat 0 (- vz n) (vy n) (1 + vx n))) = 1"
  proof (cases "vx n = - 1")
    case True
    then show ?thesis by (simp add: q_norm2_def Quat_def)
  next
    case False
    then have "1 + vx n \<noteq> 0" by linarith
    then have "0 < (1 + vx n) * (1 + vx n)"
      by (simp add: zero_less_mult_iff) linarith
    moreover have "0 \<le> vz n * vz n + vy n * vy n" by simp
    ultimately have "0 < (vz n * vz n + vy n * vy n) + (1 + vx n) * (1 + vx n)"
      by (intro add_nonneg_pos)
    then have "q_norm2 (Quat 0 (- vz n) (vy n) (1 + vx n)) \<noteq> 0"
      by (simp add: q_norm2_def Quat_def)
    with False show ?thesis by (simp add: q_norm2_normalize)
  qed
  then show ?thesis
    by (simp add: q_fromDirectionAndRoll_def Let_def q_norm2_mul x flip: n_def)
qed

lemma stdlib_unit: "unit_quaternions stdlib"
  by (simp add: unit_quaternions_def stdlib_def q_norm2_normalize q_norm2_mul
      q_fromAngleAxis_nonzero q_fromDirectionAndRoll_unit) (blast intro: q_fromRotationFromTo_unit)

lemma q_norm2_scale: "q_norm2 (q_scale q k) = q_norm2 q * (k * k)"
  by (simp add: q_norm2_def q_scale_def Quat_def algebra_simps)

lemma q_length_scale: "0 \<le> k \<Longrightarrow> q_length (q_scale q k) = q_length q * k"
  by (simp add: q_length_def q_norm2_scale real_sqrt_mult)

lemma float_lib_renormalizing: "renormalizing 0.000001 float_lib"
  unfolding renormalizing_def
proof (intro conjI allI impI)
  fix q assume "q_norm2 q \<noteq> 0"
  then show "\<bar>q_length (normalize float_lib q) - 1\<bar> \<le> 0.000001"
    by (simp add: float_lib_def stdlib_def q_length_scale) (simp add: q_length_def q_norm2_normalize)
next
  fix p q assume "q_norm2 p \<noteq> 0 \<and> q_norm2 q \<noteq> 0"
  then show "q_norm2 (qmul float_lib p q) \<noteq> 0"
    by (simp add: float_lib_def stdlib_def q_norm2_scale q_norm2_mul)
next
  fix a ax assume "\<bar>a\<bar> < pi"
  then show "q_norm2 (fromAngleAxis float_lib a ax) \<noteq> 0"
    by (simp add: float_lib_def stdlib_def q_fromAngleAxis_nonzero)
next
  fix a b f q assume "fromRotationFromTo float_lib a b f = Some q"
  then have "q_norm2 q = 1"
    by (simp add: float_lib_def stdlib_def q_fromRotationFromTo_unit)
  then show "q_norm2 q \<noteq> 0" by simp
next
  fix d r show "\<bar>q_length (fromDirectionAndRoll float_lib d r) - 1\<bar> \<le> 0.000001"
    by (simp add: float_lib_def stdlib_def q_length_def q_fromDirectionAndRoll_unit)
qed simp_all

subsection \<open>The flared touchdown\<close>








lemma q_rotate_identity: "q_rotate v (Quat 0 0 0 1) = v"
  by (simp add: q_rotate_def Let_def Cross_def Vec3_def Quat_def vadd_def vscale_def)

lemma q_fromAngleAxis_0: "q_fromAngleAxis 0 ax = Quat 0 0 0 1"
  by (simp add: q_fromAngleAxis_def Let_def)

lemma q_rotate_about_y: "vy (q_rotate v (q_fromAngleAxis a (Vec3 0 1 0))) = vy v"
  by (simp add: q_rotate_def q_fromAngleAxis_def Let_def Cross_def Vec3_def Quat_def vadd_def
      vscale_def)




subsection \<open>Scalar products and lengths\<close>

lemma Length_Dot: "Length v = sqrt (Dot v v)"
  by (simp add: Length_def Dot_def)

lemma Dot_self_nonneg: "0 \<le> Dot v v"
  by (simp add: Dot_def)

lemma Dot_commute: "Dot a b = Dot b a"
  by (simp add: Dot_def mult.commute)

lemma Dot_vadd_left: "Dot (vadd a b) c = Dot a c + Dot b c"
  by (simp add: Dot_def vadd_def algebra_simps)

lemma Dot_vadd_right: "Dot c (vadd a b) = Dot c a + Dot c b"
  by (simp add: Dot_def vadd_def algebra_simps)

lemma Dot_vscale_left: "Dot (vscale a k) c = k * Dot a c"
  by (simp add: Dot_def vscale_def algebra_simps)

lemma Dot_vscale_right: "Dot c (vscale a k) = k * Dot c a"
  by (simp add: Dot_def vscale_def algebra_simps)

lemma Dot_vdiv_left: "Dot (vdiv a k) c = Dot a c / k"
  by (simp add: Dot_def vdiv_def add_divide_distrib)

lemma Dot_zero_left: "Dot (Vec3 0 0 0) c = 0"
  by (simp add: Dot_def Vec3_def)

lemma Length_squared: "Length v * Length v = Dot v v"
  by (simp add: Length_Dot Dot_self_nonneg)

lemma Length_le_iff: "0 \<le> b \<Longrightarrow> Length v \<le> b \<longleftrightarrow> Dot v v \<le> b * b"
proof
  assume b: "0 \<le> b" and "Length v \<le> b"
  then have "Length v * Length v \<le> b * b"
    by (intro mult_mono) (simp_all add: Length_nonneg)
  then show "Dot v v \<le> b * b" by (simp add: Length_squared)
next
  assume b: "0 \<le> b" and "Dot v v \<le> b * b"
  then have "sqrt (Dot v v) \<le> b"
    by (intro real_le_lsqrt) (simp_all add: power2_eq_square)
  then show "Length v \<le> b" by (simp add: Length_Dot)
qed

lemma Cauchy_Schwarz_Dot: "(Dot a b)\<^sup>2 \<le> Dot a a * Dot b b"
proof -
  have "Dot a a * Dot b b - (Dot a b)\<^sup>2 =
      (vx a * vy b - vy a * vx b)\<^sup>2 + (vy a * vz b - vz a * vy b)\<^sup>2 + (vz a * vx b - vx a * vz b)\<^sup>2"
    by (simp add: Dot_def power2_eq_square algebra_simps)
  moreover have "0 \<le> (vx a * vy b - vy a * vx b)\<^sup>2 + (vy a * vz b - vz a * vy b)\<^sup>2 + (vz a * vx b - vx a * vz b)\<^sup>2"
    by simp
  ultimately show ?thesis by linarith
qed

lemma Dot_le_Length: "Dot a b \<le> Length a * Length b"
proof -
  have "(Length a * Length b)\<^sup>2 = (Length a * Length a) * (Length b * Length b)"
    by (simp add: power2_eq_square)
  then have "(Dot a b)\<^sup>2 \<le> (Length a * Length b)\<^sup>2"
    using Cauchy_Schwarz_Dot[of a b] by (simp only: Length_squared)
  then show ?thesis
    by (rule power2_le_imp_le) (simp add: Length_nonneg)
qed

lemma Length_vadd: "Length (vadd a b) \<le> Length a + Length b"
proof -
  have "Dot (vadd a b) (vadd a b) = Dot a a + 2 * Dot a b + Dot b b"
    by (simp add: Dot_vadd_left Dot_vadd_right Dot_commute)
  also have "\<dots> \<le> Length a * Length a + 2 * (Length a * Length b) + Length b * Length b"
    using Dot_le_Length[of a b] by (simp add: Length_squared)
  also have "\<dots> = (Length a + Length b) * (Length a + Length b)"
    by (simp add: algebra_simps)
  finally show ?thesis
    by (subst Length_le_iff) (simp_all add: Length_nonneg)
qed

lemma Length_vscale: "Length (vscale a k) = \<bar>k\<bar> * Length a"
proof -
  have "Dot (vscale a k) (vscale a k) = k\<^sup>2 * Dot a a"
    by (simp add: Dot_vscale_left Dot_vscale_right power2_eq_square)
  then show ?thesis
    by (simp add: Length_Dot real_sqrt_mult)
qed

lemma Length_vdiv: "Length (vdiv a k) = Length a / \<bar>k\<bar>"
proof -
  have "vdiv a k = vscale a (1 / k)"
    by (simp add: vdiv_def vscale_def)
  then show ?thesis
    by (simp add: Length_vscale)
qed

lemma Length_Vec3_y: "Length (Vec3 0 b 0) = \<bar>b\<bar>"
  by (simp add: Length_def Vec3_def)

lemma Bessel2:
  assumes "Dot f f = 1" "Dot u u = 1" "Dot f u = 0"
  shows "(Dot v f)\<^sup>2 + (Dot v u)\<^sup>2 \<le> Dot v v"
proof -
  define r where "r = vadd v (vadd (vscale f (- Dot v f)) (vscale u (- Dot v u)))"
  have "Dot r r = Dot v v - (Dot v f)\<^sup>2 - (Dot v u)\<^sup>2"
    using assms
    by (simp add: r_def Dot_vadd_left Dot_vadd_right Dot_vscale_left Dot_vscale_right
        Dot_commute[of f v] Dot_commute[of u v] Dot_commute[of u f] power2_eq_square algebra_simps)
  with Dot_self_nonneg[of r] show ?thesis by linarith
qed

lemma planar_Cauchy_Schwarz: "(l * a + t * b)\<^sup>2 \<le> (l\<^sup>2 + t\<^sup>2) * (a\<^sup>2 + b\<^sup>2)" for l :: real
proof -
  have "(l\<^sup>2 + t\<^sup>2) * (a\<^sup>2 + b\<^sup>2) - (l * a + t * b)\<^sup>2 = (l * b - t * a)\<^sup>2"
    by (simp add: power2_eq_square algebra_simps)
  moreover have "0 \<le> (l * b - t * a)\<^sup>2" by simp
  ultimately show ?thesis by linarith
qed

lemma Normalize_cases: "Normalize v = Vec3 0 0 0 \<or> Dot (Normalize v) (Normalize v) = 1"
proof (cases "Length v = 0")
  case True
  then show ?thesis by (simp add: Normalize_def vdiv_def Vec3_def)
next
  case False
  then show ?thesis by (simp add: Dot_Normalize)
qed

lemma cos_small: "\<bar>a\<bar> \<le> 1 / 1000 \<Longrightarrow> 99 / 100 \<le> cos a" for a :: real
proof -
  assume a: "\<bar>a\<bar> \<le> 1 / 1000"
  have "\<bar>sin (a / 2)\<bar> \<le> \<bar>a / 2\<bar>" by (rule abs_sin_x_le_abs_x)
  with a have "\<bar>sin (a / 2)\<bar> \<le> \<bar>1 / 1000 :: real\<bar>" by simp
  then have "(sin (a / 2))\<^sup>2 \<le> (1 / 1000)\<^sup>2"
    by (simp only: abs_le_square_iff)
  then have "(sin (a / 2))\<^sup>2 \<le> 1 / 1000000"
    by (simp add: power2_eq_square)
  moreover have "cos a = 1 - 2 * (sin (a / 2))\<^sup>2"
    using cos_double_sin[of "a / 2"] by simp
  ultimately show ?thesis by linarith
qed


subsection \<open>The velocity after one tick, in calm air\<close>

lemma Length_unit: "Dot v v = 1 \<Longrightarrow> Length v = 1"
  by (simp add: Length_Dot)

lemma Length_zero: "Length (Vec3 0 0 0) = 0"
  by (simp add: Length_def Vec3_def)

lemma drag_coeff_upper:
  fixes sp fl :: real
  assumes "0 \<le> sp" "sp \<le> 500" "0 \<le> fl" "fl \<le> 1"
  shows "49 / 80000 * (sp * sp) * (1 + fl) \<le> 1225 / 4"
proof -
  have "sp * sp \<le> 500 * 500"
    using assms by (intro mult_mono) simp_all
  then have "(sp * sp) * (1 + fl) \<le> (500 * 500) * 2"
    using assms by (intro mult_mono) simp_all
  then show ?thesis by simp
qed

lemma drag_coeff_nonneg:
  fixes sp fl :: real
  assumes "0 \<le> fl"
  shows "0 \<le> 49 / 80000 * (sp * sp) * (1 + fl)"
  using assms by simp

lemma drag_coeff_lower:
  fixes sp fl :: real
  assumes "499 \<le> sp" "0 \<le> fl"
  shows "152 \<le> 49 / 80000 * (sp * sp) * (1 + fl)"
proof -
  have "499 * 499 \<le> sp * sp"
    using assms by (intro mult_mono) simp_all
  moreover have "(sp * sp) * 1 \<le> (sp * sp) * (1 + fl)"
    using assms by (intro mult_left_mono) simp_all
  ultimately have "499 * 499 \<le> (sp * sp) * (1 + fl)"
    by linarith
  then show ?thesis by simp
qed

lemma steer_bound:
  fixes l t d al be :: real
  assumes d: "152 \<le> d" and l: "\<bar>l\<bar> \<le> d / 2" and t: "0 \<le> t" "t \<le> 100"
    and ab: "al\<^sup>2 + be\<^sup>2 \<le> n" and n: "0 \<le> m" "n \<le> m * m"
  shows "l * al + t * be \<le> (d - 24) * m"
proof -
  have l2: "l\<^sup>2 \<le> (d / 2)\<^sup>2"
    using l by (simp only: abs_le_square_iff[symmetric]) 
  have t2: "t\<^sup>2 \<le> 100\<^sup>2"
    using t by (intro power_mono) simp_all
  define e where "e = d - 152"
  have e: "0 \<le> e" using d by (simp add: e_def)
  have dd: "d * d = e * e + 304 * e + 23104"
    by (simp add: e_def algebra_simps)
  have "0 \<le> e * e" by simp
  moreover have "d = e + 152" by (simp add: e_def)
  ultimately have "d * d / 4 + 10000 \<le> d * d - 48 * d + 576"
    using e dd by linarith
  also have "\<dots> = (d - 24)\<^sup>2"
    by (simp add: power2_eq_square algebra_simps)
  finally have k: "l\<^sup>2 + t\<^sup>2 \<le> (d - 24)\<^sup>2"
    using l2 t2 by (simp add: power2_eq_square)
  have "(l * al + t * be)\<^sup>2 \<le> (l\<^sup>2 + t\<^sup>2) * (al\<^sup>2 + be\<^sup>2)"
    by (rule planar_Cauchy_Schwarz)
  also have "\<dots> \<le> (d - 24)\<^sup>2 * (m * m)"
    using k ab n by (intro mult_mono) simp_all
  also have "\<dots> = ((d - 24) * m)\<^sup>2"
    by (simp add: power2_eq_square algebra_simps)
  finally show ?thesis
    using d n by (intro power2_le_imp_le[of "l * al + t * be"]) simp_all
qed


lemma accel_Length:
  fixes f u va g :: Vec3F and l d t :: real
  assumes f: "Dot f f = 1" and u: "Dot u u = 1" and va: "Length va \<le> 1"
    and d: "0 \<le> d" "d \<le> 1225 / 4" and l: "\<bar>l\<bar> \<le> d / 2" and t: "0 \<le> t" "t \<le> 100"
    and g: "Length g \<le> 49 / 5"
  shows "Length (vadd (vadd (vadd (vscale u l) (vscale va (- d))) (vscale f t)) g) \<le> 570"
proof -
  have 1: "Length (vscale u l) \<le> 1225 / 8"
    using l d by (simp add: Length_vscale Length_unit[OF u])
  have "d * Length va \<le> d * 1"
    using va d by (intro mult_left_mono) simp_all
  then have 2: "Length (vscale va (- d)) \<le> 1225 / 4"
    using d by (simp add: Length_vscale)
  have 3: "Length (vscale f t) \<le> 100"
    using t by (simp add: Length_vscale Length_unit[OF f])
  have "Length (vadd (vadd (vadd (vscale u l) (vscale va (- d))) (vscale f t)) g)
      \<le> Length (vadd (vadd (vscale u l) (vscale va (- d))) (vscale f t)) + Length g"
    by (rule Length_vadd)
  also have "Length (vadd (vadd (vscale u l) (vscale va (- d))) (vscale f t))
      \<le> Length (vadd (vscale u l) (vscale va (- d))) + Length (vscale f t)"
    by (rule Length_vadd)
  also have "Length (vadd (vscale u l) (vscale va (- d)))
      \<le> Length (vscale u l) + Length (vscale va (- d))"
    by (rule Length_vadd)
  finally show ?thesis
    using 1 2 3 g by linarith
qed

lemma Dot_expand_step:
  "Dot (vadd v (vscale a k)) (vadd v (vscale a k)) = Dot v v + 2 * k * Dot v a + k * k * Dot a a"
  by (simp add: Dot_vadd_left Dot_vadd_right Dot_vscale_left Dot_vscale_right Dot_commute[of a v]
      algebra_simps)

lemma step_Length_triangle:
  assumes "Length a \<le> 570"
  shows "Length (vadd v (vscale a (1 / 1000))) \<le> Length v + 57 / 100"
proof -
  have "Length (vadd v (vscale a (1 / 1000))) \<le> Length v + Length (vscale a (1 / 1000))"
    by (rule Length_vadd)
  with assms show ?thesis
    by (simp add: Length_vscale)
qed

lemma air_step_bound:
  fixes f u va g a :: Vec3F and sp l d t :: real
  assumes f: "Dot f f = 1" and u: "Dot u u = 1" and fu: "Dot f u = 0"
    and va: "va = Vec3 0 0 0 \<or> Dot va va = 1"
    and sp: "0 \<le> sp" "sp \<le> 500"
    and d: "0 \<le> d" "d \<le> 1225 / 4" "499 \<le> sp \<longrightarrow> 152 \<le> d"
    and l: "\<bar>l\<bar> \<le> d / 2" and t: "0 \<le> t" "t \<le> 100"
    and g: "Length g \<le> 49 / 5"
    and a: "a = vadd (vadd (vadd (vscale u l) (vscale va (- d))) (vscale f t)) g"
  shows "Length (vadd (vscale va sp) (vscale a (1 / 1000))) \<le> 500"
proof -
  have Lva: "Length va \<le> 1"
    using va by (auto simp add: Length_zero Length_unit)
  have La: "Length a \<le> 570"
    unfolding a by (rule accel_Length[OF f u Lva d(1,2) l t g])
  have tri: "Length (vadd (vscale va sp) (vscale a (1 / 1000))) \<le> sp * Length va + 57 / 100"
    using step_Length_triangle[OF La, of "vscale va sp"] sp by (simp add: Length_vscale)
  show ?thesis
  proof (cases "sp \<le> 499 \<or> va = Vec3 0 0 0")
    case True
    have "sp * Length va \<le> 499"
    proof (cases "va = Vec3 0 0 0")
      case True
      then show ?thesis by (simp add: Length_zero)
    next
      case False
      with \<open>sp \<le> 499 \<or> va = Vec3 0 0 0\<close> have "sp \<le> 499" by simp
      moreover have "sp * Length va \<le> sp * 1"
        using Lva sp by (intro mult_left_mono) simp_all
      ultimately show ?thesis by simp
    qed
    with tri show ?thesis by linarith
  next
    case False
    then have fast: "499 \<le> sp" and n1: "Dot va va = 1"
      using va by auto
    have d152: "152 \<le> d" using d fast by simp
    have bes: "(Dot va u)\<^sup>2 + (Dot va f)\<^sup>2 \<le> 1"
      using Bessel2[of u f va] f u fu n1 by (simp add: Dot_commute[of u f])
    have "l * Dot va u + t * Dot va f \<le> (d - 24) * 1"
      by (rule steer_bound[OF d152 l t bes]) simp_all
    then have steer: "l * Dot va u + t * Dot va f \<le> d - 24"
      by simp
    have "Dot va g \<le> Length va * Length g"
      by (rule Dot_le_Length)
    then have grav: "Dot va g \<le> 49 / 5"
      using g by (simp add: Length_unit[OF n1])
    have "Dot va a = (l * Dot va u + t * Dot va f) - d + Dot va g"
      by (simp add: a Dot_vadd_right Dot_vscale_right n1)
    with steer grav have va_a: "Dot va a \<le> - 14" by linarith
    have "sp * Dot va a \<le> sp * (- 14)"
      using va_a sp by (intro mult_left_mono) simp_all
    with fast have sva: "sp * Dot va a \<le> - 6986" by linarith
    have aa: "Dot a a \<le> 570 * 570"
      using La by (simp add: Length_le_iff)
    have ss: "sp * sp \<le> 500 * 500"
      using sp by (intro mult_mono) simp_all
    have "Dot (vadd (vscale va sp) (vscale a (1 / 1000))) (vadd (vscale va sp) (vscale a (1 / 1000)))
        = sp * sp + 2 * (1 / 1000) * (sp * Dot va a) + (1 / 1000) * (1 / 1000) * Dot a a"
      by (simp add: Dot_expand_step Dot_vscale_left Dot_vscale_right n1)
    also have "\<dots> \<le> 500 * 500"
      using sva aa ss by linarith
    finally show ?thesis
      by (simp add: Length_le_iff)
  qed
qed


lemma vadd_zero_right: "vadd v (Vec3 0 0 0) = v"
  by (simp add: vadd_def Vec3_def)

lemma ground_step_bound:
  fixes f u va vg a :: Vec3F and sp l d t c :: real
  assumes f: "Dot f f = 1" and u: "Dot u u = 1" and fu: "Dot f u = 0"
    and va: "va = Vec3 0 0 0 \<or> Dot va va = 1"
    and sp: "0 \<le> sp" "sp \<le> 500"
    and d: "0 \<le> d" "d \<le> 1225 / 4" "499 \<le> sp \<longrightarrow> 152 \<le> d"
    and l: "\<bar>l\<bar> \<le> d / 2" and t: "0 \<le> t" "t \<le> 100"
    and c: "99 / 100 \<le> c"
    and vgvg: "Dot vg vg = (9999 / 10000 * sp) * (9999 / 10000 * sp) * (vx va * vx va + vz va * vz va)"
    and vgva: "(9999 / 10000 * sp) * Dot vg va =
               c * ((9999 / 10000 * sp) * (9999 / 10000 * sp) * (vx va * vx va + vz va * vz va))"
    and a: "a = vadd (vadd (vscale u l) (vscale va (- d))) (vscale f t)"
  shows "Length (vadd vg (vscale a (1 / 1000))) \<le> 500"
proof -
  define k where "k = 9999 / 10000 * sp"
  define c2 where "c2 = vx va * vx va + vz va * vz va"
  have k: "0 \<le> k" "k \<le> 49995 / 100"
    using sp by (simp_all add: k_def)
  have kk: "k * k \<le> (49995 / 100) * (49995 / 100)"
    using k by (intro mult_mono) simp_all
  have c2: "0 \<le> c2" "c2 \<le> 1"
  proof -
    show "0 \<le> c2" by (simp add: c2_def)
    have "c2 \<le> Dot va va" by (simp add: c2_def Dot_def)
    moreover have "Dot va va \<le> 1"
      using va by (auto simp add: Dot_def Vec3_def)
    ultimately show "c2 \<le> 1" by linarith
  qed
  have gg: "Dot vg vg = k * k * c2"
    using vgvg by (simp add: k_def c2_def)
  have "k * k * c2 \<le> k * k * 1"
    using c2 by (intro mult_left_mono) simp_all
  then have gk: "Dot vg vg \<le> k * k"
    using gg by simp
  have Lva: "Length va \<le> 1"
    using va by (auto simp add: Length_zero Length_unit)
  have "Length (vadd (vadd (vadd (vscale u l) (vscale va (- d))) (vscale f t)) (Vec3 0 0 0)) \<le> 570"
    by (rule accel_Length[OF f u Lva d(1,2) l t]) (simp add: Length_zero)
  then have La: "Length a \<le> 570"
    by (simp add: a vadd_zero_right)
  have tri: "Length (vadd vg (vscale a (1 / 1000))) \<le> Length vg + 57 / 100"
    by (rule step_Length_triangle[OF La])
  show ?thesis
  proof (cases "499 \<le> sp \<and> 99 / 100 \<le> c2")
    case False
    have "Dot vg vg \<le> 499 * 499"
    proof (cases "499 \<le> sp")
      case True
      with False have low: "c2 \<le> 99 / 100" by simp
      have "k * k * c2 \<le> (49995 / 100) * (49995 / 100) * (99 / 100)"
        by (rule mult_mono[OF kk low _ c2(1)]) simp
      then show ?thesis using gg by simp
    next
      case False
      then have "k \<le> 499" by (simp add: k_def)
      then have "k * k \<le> 499 * 499"
        using k by (intro mult_mono) simp_all
      with gk show ?thesis by linarith
    qed
    then have "Length vg \<le> 499"
      by (simp add: Length_le_iff)
    with tri show ?thesis by linarith
  next
    case True
    then have fast: "499 \<le> sp" and flat: "99 / 100 \<le> c2" by simp_all
    have d152: "152 \<le> d" using d fast by simp
    have kpos: "0 < k" using fast by (simp add: k_def)
    have "k * Dot vg va = k * (c * (k * c2))"
      using vgva by (simp add: k_def c2_def algebra_simps)
    then have gva: "Dot vg va = c * (k * c2)"
      using kpos by simp
    have "(98 / 100) * k \<le> c * (k * c2)"
    proof -
      have "(99 / 100) * ((99 / 100) * k) \<le> c * (c2 * k)"
        using c flat k by (intro mult_mono) simp_all
      then show ?thesis using k by (simp add: mult.commute)
    qed
    then have gva_low: "(98 / 100) * k \<le> Dot vg va"
      by (simp add: gva)
    then have "d * ((98 / 100) * k) \<le> d * Dot vg va"
      using d by (intro mult_left_mono) simp_all
    then have drag: "(98 / 100) * (d * k) \<le> d * Dot vg va"
      by (simp add: algebra_simps)
    have bes: "(Dot vg u)\<^sup>2 + (Dot vg f)\<^sup>2 \<le> Dot vg vg"
      using Bessel2[of u f vg] f u fu by (simp add: Dot_commute[of u f])
    have "l * Dot vg u + t * Dot vg f \<le> (d - 24) * k"
      by (rule steer_bound[OF d152 l t bes k(1) gk])
    then have steer: "l * Dot vg u + t * Dot vg f \<le> d * k - 24 * k"
      by (simp add: algebra_simps)
    have dk: "d * k \<le> (1225 / 4) * k"
      using d k by (intro mult_right_mono) simp_all
    have "Dot vg a = (l * Dot vg u + t * Dot vg f) - d * Dot vg va"
      by (simp add: a Dot_vadd_right Dot_vscale_right)
    with steer drag dk k have ga: "Dot vg a \<le> 0" by linarith
    have aa: "Dot a a \<le> 570 * 570"
      using La by (simp add: Length_le_iff)
    have "Dot (vadd vg (vscale a (1 / 1000))) (vadd vg (vscale a (1 / 1000)))
        = Dot vg vg + 2 * (1 / 1000) * Dot vg a + (1 / 1000) * (1 / 1000) * Dot a a"
      by (rule Dot_expand_step)
    also have "\<dots> \<le> 500 * 500"
      using gk kk ga aa by linarith
    finally show ?thesis
      by (simp add: Length_le_iff)
  qed
qed


lemma steered_vaxis_cases:
  "steered_vaxis L s = Vec3 0 0 0 \<or> Dot (steered_vaxis L s) (steered_vaxis L s) = 1"
  by (simp add: steered_vaxis_def Let_def Normalize_cases)

lemma limited_speed_500:
  "m_max_speed s = 500 \<Longrightarrow> 0 \<le> limited_speed s \<and> limited_speed s \<le> 500"
  using limited_speed_le[of s] limited_speed_nonneg[of s] by simp

lemma dynamic_pressure_calm:
  "m_wind s = Vec3 0 0 0 \<Longrightarrow> dynamic_pressure L s = 49 / 80 * (limited_speed s * limited_speed s)"
  by (simp add: dynamic_pressure_def airflow_def Dot_zero_left)

lemma lift_coeff_bound:
  assumes "0 \<le> m_flaps s"
  shows "\<bar>sin (angle_of_attack L s * 0.2) + flap_lift s\<bar> \<le> 1 + m_flaps s"
proof -
  have "\<bar>flap_lift s\<bar> = m_flaps s * \<bar>cos (limited_speed s / m_max_speed s * (PI / 2))\<bar>"
    using assms by (simp add: flap_lift_def abs_mult)
  also have "\<dots> \<le> m_flaps s * 1"
    using assms by (intro mult_left_mono) simp_all
  finally have "\<bar>flap_lift s\<bar> \<le> m_flaps s" by simp
  moreover have "\<bar>sin (angle_of_attack L s * 0.2)\<bar> \<le> 1" by simp
  ultimately show ?thesis by linarith
qed

lemma Advance_accel_calm:
  assumes wind: "m_wind s = Vec3 0 0 0"
  shows "m_accel (Advance L s) =
     vadd (vadd (vadd
       (vscale (body_up L s)
          ((sin (angle_of_attack L s * 0.2) + flap_lift s) *
             (49 / 160000 * (limited_speed s * limited_speed s))))
       (vscale (steered_vaxis L s)
          (- (49 / 80000 * (limited_speed s * limited_speed s) * (1 + m_flaps s)))))
       (vscale (body_fwd L s) (m_power s * 10)))
       (if ground_contact L s then Vec3 0 0 0 else Vec3 0 (- 49 / 5) 0)"
  by (simp add: Advance_accel_split Advance_lift Advance_drag Advance_thrust
      dynamic_pressure_calm[OF wind] wind vadd_def vscale_def vdiv_def Vec3_def)
     (simp add: field_simps)


lemma Advance_vel_bound:
  assumes rot: "rotations L" and unit: "q_norm2 (m_orient s) = 1"
    and wind: "m_wind s = Vec3 0 0 0" and ms: "m_max_speed s = 500" and dt: "m_DT s = 1 / 1000"
    and pw: "0 \<le> m_power s" "m_power s \<le> 10"
    and fl: "0 \<le> m_flaps s" "m_flaps s \<le> 1"
    and rl: "\<bar>m_roll s\<bar> \<le> 1"
  shows "Length (m_vel (Advance L s)) \<le> 500"
proof -
  define f where "f = body_fwd L s"
  define u where "u = body_up L s"
  define va where "va = steered_vaxis L s"
  define sp where "sp = limited_speed s"
  define l where "l = (sin (angle_of_attack L s * 0.2) + flap_lift s) * (49 / 160000 * (sp * sp))"
  define d where "d = 49 / 80000 * (sp * sp) * (1 + m_flaps s)"
  define t where "t = m_power s * 10"
  have ortho: "Dot f f = 1" "Dot u u = 1" "Dot f u = 0"
    using rot unit by (simp_all add: rotations_def f_def u_def body_fwd_def body_up_def)
  have va: "va = Vec3 0 0 0 \<or> Dot va va = 1"
    unfolding va_def by (rule steered_vaxis_cases)
  have sp: "0 \<le> sp" "sp \<le> 500"
    using limited_speed_500[OF ms] by (simp_all add: sp_def)
  have d: "0 \<le> d" "d \<le> 1225 / 4" "499 \<le> sp \<longrightarrow> 152 \<le> d"
    unfolding d_def
    using drag_coeff_nonneg[OF fl(1), of sp] drag_coeff_upper[OF sp fl]
      drag_coeff_lower[OF _ fl(1), of sp]
    by blast+
  have l: "\<bar>l\<bar> \<le> d / 2"
  proof -
    have "\<bar>l\<bar> = \<bar>sin (angle_of_attack L s * 0.2) + flap_lift s\<bar> * (49 / 160000 * (sp * sp))"
      by (simp add: l_def abs_mult)
    also have "\<dots> \<le> (1 + m_flaps s) * (49 / 160000 * (sp * sp))"
      using lift_coeff_bound[OF fl(1), of L] by (intro mult_right_mono) simp_all
    also have "\<dots> = d / 2"
      by (simp add: d_def)
    finally show ?thesis .
  qed
  have t: "0 \<le> t" "t \<le> 100"
    using pw by (simp_all add: t_def)
  have accel: "m_accel (Advance L s) =
      vadd (vadd (vadd (vscale u l) (vscale va (- d))) (vscale f t))
        (if ground_contact L s then Vec3 0 0 0 else Vec3 0 (- 49 / 5) 0)"
    by (simp only: Advance_accel_calm[OF wind] u_def l_def va_def d_def f_def t_def sp_def)
  show ?thesis
  proof (cases "ground_contact L s")
    case False
    have a: "m_accel (Advance L s) =
        vadd (vadd (vadd (vscale u l) (vscale va (- d))) (vscale f t)) (Vec3 0 (- 49 / 5) 0)"
      using accel False by simp
    have g: "Length (Vec3 0 (- 49 / 5) 0) \<le> 49 / 5"
      by (simp add: Length_Vec3_y)
    have "Length (vadd (vscale va sp) (vscale (m_accel (Advance L s)) (1 / 1000))) \<le> 500"
      by (rule air_step_bound[OF ortho va sp d l t g a])
    then show ?thesis
      using False by (simp add: Advance_vel dt va_def sp_def)
  next
    case True
    define rud where "rud = fromAngleAxis L (- m_roll s * 0.001) (Vec3 0 1 0)"
    define w where "w = vscale ((vscale va sp)\<lparr>vy := 0\<rparr>) 0.9999"
    define vg where "vg = vmulq L w rud"
    have wy: "vy w = 0" by (simp add: w_def vscale_def)
    have ww: "Dot w w = (9999 / 10000 * sp) * (9999 / 10000 * sp) * (vx va * vx va + vz va * vz va)"
      by (simp add: w_def Dot_def vscale_def algebra_simps)
    have gy: "vy vg = 0"
      using rot wy by (simp add: rotations_def vg_def rud_def)
    have vgvg: "Dot vg vg = (9999 / 10000 * sp) * (9999 / 10000 * sp) * (vx va * vx va + vz va * vz va)"
      using rot ww by (simp add: rotations_def vg_def rud_def)
    have "Dot vg w = cos (- m_roll s * 0.001) * (vx w * vx w + vz w * vz w) + vy w * vy w"
      using rot by (simp add: rotations_def vg_def rud_def)
    also have "\<dots> = cos (- m_roll s * 0.001) *
        ((9999 / 10000 * sp) * (9999 / 10000 * sp) * (vx va * vx va + vz va * vz va))"
      by (simp add: w_def vscale_def algebra_simps)
    finally have gw: "Dot vg w = cos (- m_roll s * 0.001) *
        ((9999 / 10000 * sp) * (9999 / 10000 * sp) * (vx va * vx va + vz va * vz va))" .
    have "Dot vg w = (9999 / 10000 * sp) * Dot vg va"
      using gy by (simp add: w_def Dot_def vscale_def algebra_simps)
    with gw have vgva: "(9999 / 10000 * sp) * Dot vg va = cos (- m_roll s * 0.001) *
        ((9999 / 10000 * sp) * (9999 / 10000 * sp) * (vx va * vx va + vz va * vz va))"
      by simp
    have c: "99 / 100 \<le> cos (- m_roll s * 0.001)"
      using rl by (intro cos_small) (simp add: abs_mult)
    have a: "m_accel (Advance L s) = vadd (vadd (vscale u l) (vscale va (- d))) (vscale f t)"
      using accel True by (simp add: vadd_zero_right)
    have "Length (vadd vg (vscale (m_accel (Advance L s)) (1 / 1000))) \<le> 500"
      by (rule ground_step_bound[OF ortho va sp d l t c vgvg vgva a])
    then show ?thesis
      using True by (simp add: Advance_vel dt vg_def w_def rud_def va_def sp_def)
  qed
qed


lemma tick_calm: "calm s \<Longrightarrow> calm (tick L s c)"
  by (simp add: calm_def tick_def Advance_frame)

lemma run_calm: "calm s \<Longrightarrow> calm (run L cs s)"
  by (induction cs rule: rev_induct) (simp_all add: run_def tick_calm)

lemma init_calm: "calm (init L)"
  by (simp add: calm_def init_def)

lemma controls_ok_roll: "\<forall>c\<in>set cs. controls_ok c \<Longrightarrow> \<forall>c\<in>set cs. \<bar>roll c\<bar> \<le> 1"
  by (simp add: controls_ok_def)

lemma tick_vel_bound:
  assumes "rotations L" "q_norm2 (m_orient s) = 1" "calm s" "controls_ok c"
  shows "Length (m_vel (tick L s c)) \<le> 500"
  unfolding tick_def
  using assms
  by (intro Advance_vel_bound) (auto simp add: calm_def controls_ok_def)

lemma tick_speed_bound:
  assumes "calm s"
  shows "0 \<le> m_speed (tick L s c) \<and> m_speed (tick L s c) \<le> 500"
  unfolding tick_def Advance_speed
  using assms by (intro limited_speed_500) (simp add: calm_def)

lemma run_vel_bound:
  assumes L: "unit_quaternions L" "rotations L" and cs: "\<forall>c\<in>set cs. controls_ok c"
  shows "Length (m_vel (run L cs (init L))) \<le> 500 \<and>
         0 \<le> m_speed (run L cs (init L)) \<and> m_speed (run L cs (init L)) \<le> 500"
proof (cases cs rule: rev_cases)
  case Nil
  have "Length (Vec3 0 0 200) = 200"
    by (simp add: Length_def Vec3_def)
  then show ?thesis
    using Nil by (simp add: run_def init_def)
next
  case (snoc cs' c)
  have ok: "\<forall>c\<in>set cs'. controls_ok c" "controls_ok c"
    using cs snoc by simp_all
  have "q_norm2 (m_orient (run L cs' (init L))) = 1"
    by (rule run_orient_unit[OF L(1) init_orient_unit[OF L(1)] controls_ok_roll[OF ok(1)]])
  moreover have "calm (run L cs' (init L))"
    by (rule run_calm[OF init_calm])
  ultimately show ?thesis
    using tick_vel_bound[OF L(2) _ _ ok(2), of "run L cs' (init L)"]
      tick_speed_bound[of "run L cs' (init L)" L c]
    by (simp add: snoc run_snoc)
qed

subsection \<open>The reference library rotates\<close>

lemma q_rotate_x:
  "q_rotate (Vec3 1 0 0) q =
     Vec3 (1 - 2 * (qY q * qY q + qZ q * qZ q)) (2 * (qX q * qY q + qW q * qZ q))
          (2 * (qX q * qZ q - qW q * qY q))"
  by (simp add: q_rotate_def Let_def Cross_def Vec3_def vadd_def vscale_def algebra_simps)

lemma q_rotate_y:
  "q_rotate (Vec3 0 1 0) q =
     Vec3 (2 * (qX q * qY q - qW q * qZ q)) (1 - 2 * (qX q * qX q + qZ q * qZ q))
          (2 * (qY q * qZ q + qW q * qX q))"
  by (simp add: q_rotate_def Let_def Cross_def Vec3_def vadd_def vscale_def algebra_simps)

lemma q_rotate_axes:
  assumes "q_norm2 q = 1"
  shows "Dot (q_rotate (Vec3 1 0 0) q) (q_rotate (Vec3 1 0 0) q) = 1"
    and "Dot (q_rotate (Vec3 0 1 0) q) (q_rotate (Vec3 0 1 0) q) = 1"
    and "Dot (q_rotate (Vec3 1 0 0) q) (q_rotate (Vec3 0 1 0) q) = 0"
proof -
  have "Dot (q_rotate (Vec3 1 0 0) q) (q_rotate (Vec3 1 0 0) q) =
      1 + 4 * (qY q * qY q + qZ q * qZ q) * (q_norm2 q - 1)"
    by (simp only: q_rotate_x) (simp add: Dot_def Vec3_def q_norm2_def algebra_simps)
  then show "Dot (q_rotate (Vec3 1 0 0) q) (q_rotate (Vec3 1 0 0) q) = 1"
    using assms by simp
  have "Dot (q_rotate (Vec3 0 1 0) q) (q_rotate (Vec3 0 1 0) q) =
      1 + 4 * (qX q * qX q + qZ q * qZ q) * (q_norm2 q - 1)"
    by (simp only: q_rotate_y) (simp add: Dot_def Vec3_def q_norm2_def algebra_simps)
  then show "Dot (q_rotate (Vec3 0 1 0) q) (q_rotate (Vec3 0 1 0) q) = 1"
    using assms by simp
  have "Dot (q_rotate (Vec3 1 0 0) q) (q_rotate (Vec3 0 1 0) q) =
      4 * (qX q * qY q) * (1 - q_norm2 q)"
    by (simp only: q_rotate_x q_rotate_y) (simp add: Dot_def Vec3_def q_norm2_def algebra_simps)
  then show "Dot (q_rotate (Vec3 1 0 0) q) (q_rotate (Vec3 0 1 0) q) = 0"
    using assms by simp
qed

lemma q_rotate_rudder:
  "q_rotate v (q_fromAngleAxis a (Vec3 0 1 0)) =
     Vec3 ((1 - 2 * (sin (a / 2))\<^sup>2) * vx v + 2 * (cos (a / 2) * sin (a / 2)) * vz v)
          (vy v)
          ((1 - 2 * (sin (a / 2))\<^sup>2) * vz v - 2 * (cos (a / 2) * sin (a / 2)) * vx v)"
  by (simp add: q_rotate_def q_fromAngleAxis_def Let_def Cross_def Vec3_def Quat_def vadd_def
      vscale_def power2_eq_square algebra_simps)

lemma q_rotate_rudder_Dot:
  "Dot (q_rotate v (q_fromAngleAxis a (Vec3 0 1 0))) v =
     cos a * (vx v * vx v + vz v * vz v) + vy v * vy v"
proof -
  have "cos a = 1 - 2 * (sin (a / 2))\<^sup>2"
    using cos_double_sin[of "a / 2"] by simp
  then show ?thesis
    by (simp only: q_rotate_rudder) (simp add: Dot_def Vec3_def algebra_simps)
qed

lemma q_rotate_rudder_Length:
  "Dot (q_rotate v (q_fromAngleAxis a (Vec3 0 1 0))) (q_rotate v (q_fromAngleAxis a (Vec3 0 1 0))) =
     Dot v v"
proof -
  define S where "S = sin (a / 2)"
  define C where "C = cos (a / 2)"
  have sc: "S\<^sup>2 + C\<^sup>2 = 1"
    by (simp add: S_def C_def)
  have "Dot (q_rotate v (q_fromAngleAxis a (Vec3 0 1 0))) (q_rotate v (q_fromAngleAxis a (Vec3 0 1 0))) =
      Dot v v + 4 * S\<^sup>2 * (S\<^sup>2 + C\<^sup>2 - 1) * (vx v * vx v + vz v * vz v)"
    by (simp only: q_rotate_rudder flip: S_def C_def)
       (simp add: Dot_def Vec3_def power2_eq_square algebra_simps)
  then show ?thesis
    by (simp add: sc)
qed

lemma stdlib_rotations: "rotations stdlib"
  by (simp add: rotations_def stdlib_def q_rotate_axes q_rotate_about_y q_rotate_rudder_Dot
      q_rotate_rudder_Length)

subsection \<open>The three NaN guards\<close>

lemma steered_vaxis_div_zero:
  assumes "0 \<le> m_max_speed s"
  shows "steered_vaxis (L\<lparr>div_zero := f\<rparr>) s = steered_vaxis L s"
proof (cases "Length (m_vel s) = 0")
  case True
  with assms have "limited_speed s = 0"
    by (simp add: limited_speed_def Let_def)
  then show ?thesis
    by (simp add: steered_vaxis_def Let_def body_fwd_def body_right_def)
next
  case False
  then show ?thesis
    by (simp add: steered_vaxis_def Let_def vquot_def body_fwd_def body_right_def)
qed

lemma CheckLanding_div_zero: "CheckLanding (L\<lparr>div_zero := f\<rparr>) s = CheckLanding L s"
  by (simp add: CheckLanding_def Let_def landing_msg_def)

lemma helpers_div_zero:
  assumes "0 \<le> m_max_speed s"
  shows "body_fwd (L\<lparr>div_zero := f\<rparr>) s = body_fwd L s"
    and "body_up (L\<lparr>div_zero := f\<rparr>) s = body_up L s"
    and "airflow (L\<lparr>div_zero := f\<rparr>) s = airflow L s"
    and "dynamic_pressure (L\<lparr>div_zero := f\<rparr>) s = dynamic_pressure L s"
    and "angle_of_attack (L\<lparr>div_zero := f\<rparr>) s = angle_of_attack L s"
    and "moved_pos (L\<lparr>div_zero := f\<rparr>) s = moved_pos L s"
    and "ground_contact (L\<lparr>div_zero := f\<rparr>) s = ground_contact L s"
  by (simp_all add: body_fwd_def body_up_def airflow_def dynamic_pressure_def angle_of_attack_def
      moved_pos_def ground_contact_def steered_vaxis_div_zero[OF assms])

lemma sel_div_zero:
  "vmulq (L\<lparr>div_zero := f\<rparr>) = vmulq L"
  "qmul (L\<lparr>div_zero := f\<rparr>) = qmul L"
  "normalize (L\<lparr>div_zero := f\<rparr>) = normalize L"
  "fromAngleAxis (L\<lparr>div_zero := f\<rparr>) = fromAngleAxis L"
  "fromRotationFromTo (L\<lparr>div_zero := f\<rparr>) = fromRotationFromTo L"
  "fromDirectionAndRoll (L\<lparr>div_zero := f\<rparr>) = fromDirectionAndRoll L"
  by simp_all

lemma Advance_div_zero:
  assumes "0 \<le> m_max_speed s"
  shows "Advance (L\<lparr>div_zero := f\<rparr>) s = Advance L s"
  unfolding Advance_def
  by (simp only: helpers_div_zero[OF assms] steered_vaxis_div_zero[OF assms] CheckLanding_div_zero
      sel_div_zero)

lemma zero_speed_vaxis:
  "limited_speed s = 0 \<Longrightarrow>
   steered_vaxis L s =
     Normalize (vmulq L (body_fwd L s) (fromAngleAxis L (next_pitch_adv s * 0.0001) (body_right L s)))"
  by (simp add: steered_vaxis_def Let_def)

lemma acos_nan_aoa:
  "acos (Dot (body_fwd L s) (steered_vaxis L s)) = None \<Longrightarrow> m_aoa (Advance L s) = 1"
  by (simp add: Advance_aoa angle_of_attack_def)

lemma rotation_nan_orient:
  "fromRotationFromTo L (body_fwd L s) (steered_vaxis L s) 0.001 = None \<Longrightarrow>
   m_orient (Advance L s) =
     (if ground_contact L s
      then normalize L (qmul L (fromDirectionAndRoll L (Vec3 (vx (body_fwd L s)) 0 (vz (body_fwd L s))) 0)
                          (fromAngleAxis L (- m_roll s * 0.001) (Vec3 0 1 0)))
      else normalize L (qmul L (m_orient s)
             (fromAngleAxis L (m_roll s * 0.001) (vmulq L (Vec3 1 0 0) (m_orient s)))))"
  by (simp add: Advance_orient Let_def)


lemma Length_Vec3_x: "Length (Vec3 a 0 0) = \<bar>a\<bar>"
  by (simp add: Length_def Vec3_def)

lemma Normalize_Vec3_x: "a \<noteq> 0 \<Longrightarrow> Normalize (Vec3 a 0 0) = Vec3 (a / \<bar>a\<bar>) 0 0"
  by (simp add: Normalize_def Length_Vec3_x) (simp add: vdiv_def Vec3_def)

lemma cruise_speed: "limited_speed cruise = 200" "limited_speed reversed = 200"
  by (simp_all add: limited_speed_def Let_def cruise_def reversed_def init_def Length_Vec3_x)

lemma cruise_pitch: "next_pitch_adv cruise = 0" "next_pitch_adv reversed = 0"
  by (simp_all add: next_pitch_adv_def Let_def cruise_def reversed_def init_def Vec3_def)

lemma cruise_fwd: "body_fwd round_up_lib cruise = Vec3 1.0000001 0 0"
  by (simp add: body_fwd_def round_up_lib_def cruise_def q_rotate_identity)
     (simp add: vscale_def Vec3_def)

lemma cruise_vaxis: "steered_vaxis round_up_lib cruise = Vec3 1 0 0"
proof -
  have v: "m_vel cruise = Vec3 200 0 0" by (simp add: cruise_def)
  have "vquot round_up_lib (m_vel cruise) (Length (m_vel cruise)) = Vec3 1 0 0"
    by (simp add: vquot_def v Length_Vec3_x) (simp add: vdiv_def Vec3_def)
  moreover have "fromAngleAxis round_up_lib 0 (body_right round_up_lib cruise) = Quat 0 0 0 1"
    by (simp add: round_up_lib_def stdlib_def q_fromAngleAxis_0)
  moreover have "vmulq round_up_lib (Vec3 1 0 0) (Quat 0 0 0 1) = Vec3 1.0000001 0 0"
    by (simp add: round_up_lib_def q_rotate_identity) (simp add: vscale_def Vec3_def)
  moreover have "Normalize (Vec3 1.0000001 0 0) = Vec3 1 0 0"
    by (simp add: Normalize_Vec3_x)
  ultimately show ?thesis
    by (simp add: steered_vaxis_def Let_def cruise_speed cruise_pitch)
qed

lemma cruise_acos: "acos (Dot (body_fwd round_up_lib cruise) (steered_vaxis round_up_lib cruise)) = None"
  by (simp add: cruise_fwd cruise_vaxis) (simp add: Dot_def Vec3_def acos_def)

lemma reversed_fwd: "body_fwd stdlib reversed = Vec3 1 0 0"
  by (simp add: body_fwd_def stdlib_def reversed_def q_rotate_identity)

lemma reversed_vaxis: "steered_vaxis stdlib reversed = Vec3 (- 1) 0 0"
proof -
  have v: "m_vel reversed = Vec3 (- 200) 0 0" by (simp add: reversed_def)
  have "vquot stdlib (m_vel reversed) (Length (m_vel reversed)) = Vec3 (- 1) 0 0"
    by (simp add: vquot_def v Length_Vec3_x) (simp add: vdiv_def Vec3_def)
  moreover have "fromAngleAxis stdlib 0 (body_right stdlib reversed) = Quat 0 0 0 1"
    by (simp add: stdlib_def q_fromAngleAxis_0)
  moreover have "vmulq stdlib (Vec3 (- 1) 0 0) (Quat 0 0 0 1) = Vec3 (- 1) 0 0"
    by (simp add: stdlib_def q_rotate_identity)
  moreover have "Normalize (Vec3 (- 1) 0 0) = Vec3 (- 1) 0 0"
    by (simp add: Normalize_Vec3_x)
  ultimately show ?thesis
    by (simp add: steered_vaxis_def Let_def cruise_speed cruise_pitch)
qed

lemma reversed_rotation:
  "fromRotationFromTo stdlib (body_fwd stdlib reversed) (steered_vaxis stdlib reversed) 0.001 = None"
  by (simp add: reversed_fwd reversed_vaxis)
     (simp add: stdlib_def q_fromRotationFromTo_def Let_def Cross_def Dot_def Length_def Vec3_def)

lemma reversed_air: "\<not> ground_contact stdlib reversed"
  by (rule airborne_if) (simp_all add: reversed_def init_def Vec3_def)

lemma parked_speed: "limited_speed parked = 0"
  by (rule limited_speed_rest) (simp_all add: parked_def init_def)

subsection \<open>The shallow approach\<close>










subsection \<open>The landing message\<close>

lemma fmt_4_1f_examples:
  "fmt_4_1f 150 = ''150.0''" "fmt_4_1f 60 = ''60.0''" "fmt_4_1f (- 1) = ''-1.0''"
  "fmt_4_1f 3 = '' 3.0''" "fmt_4_1f 2 = '' 2.0''"
  by (simp_all add: fmt_4_1f_def round_half_even_def fixed_1_def pad_left_def)

lemma fmt_4_1f_rounding:
  "fmt_4_1f 0.25 = '' 0.2''" "fmt_4_1f 0.35 = '' 0.4''" "fmt_4_1f (- 0.04) = ''-0.0''"
  "fmt_4_1f (- 0.75) = ''-0.8''" "fmt_4_1f 12.34 = ''12.3''"
  by (simp_all add: fmt_4_1f_def round_half_even_def fixed_1_def pad_left_def)

lemma touchdown_fields:
  "m_speed (touchdown sp) = sp" "m_vel (touchdown sp) = Vec3 0 (- 1) sp"
  "m_pos (touchdown sp) = Vec3 0 0 100" "m_airborn (touchdown sp) = 2001"
  "m_runway_width (touchdown sp) = 50" "m_runway_length (touchdown sp) = 2000"
  by (simp_all add: touchdown_def parked_def init_def)

lemma euler_lib_fields: "toEuler euler_lib q = Vec3 2 3 0" "fmt_f euler_lib = fmt_4_1f"
  by (simp_all add: euler_lib_def stdlib_def)

section \<open>The claims\<close>




text \<open>C2. From the initial state (no wind, top speed 500), for every sequence of ticks
  with roll and pitch in \<open>[-1, 1]\<close>, power in \<open>[0, 10]\<close> and flaps in \<open>{0, 1}\<close>, the
  magnitude of the velocity after each call is at least 0 and at most 500, and so is the
  stored speed; for every library that meets the length contract and the rotation
  contract of the orientation primitives.\<close>

theorem C2_speed_bounded:
  "unit_quaternions L \<Longrightarrow> rotations L \<Longrightarrow> (\<forall>c\<in>set cs. controls_ok c) \<Longrightarrow>
   0 \<le> Length (m_vel (run L cs (init L))) \<and>
   Length (m_vel (run L cs (init L))) \<le> 500 \<and>
   0 \<le> m_speed (run L cs (init L)) \<and>
   m_speed (run L cs (init L)) \<le> 500 \<and>
   m_max_speed (run L cs (init L)) = 500"
proof -
  assume L: "unit_quaternions L" "rotations L" and cs: "\<forall>c\<in>set cs. controls_ok c"
  have "calm (run L cs (init L))"
    by (rule run_calm[OF init_calm])
  then have "m_max_speed (run L cs (init L)) = 500"
    by (simp add: calm_def)
  with run_vel_bound[OF L cs] show ?thesis
    by (simp add: Length_nonneg)
qed

text \<open>C2, witness: the reference library meets both contracts; from the initial state,
  a tick at full throttle with the stick pushed and the flaps out, then a tick with the
  throttle closed, rolling left.\<close>

theorem C2_speed_bounded_witness:
  "unit_quaternions stdlib \<and> rotations stdlib \<and>
   controls_ok \<lparr>roll = 0, pitch = - 1, power = 10, flaps = 1\<rparr> \<and>
   controls_ok \<lparr>roll = - 1, pitch = 0, power = 0, flaps = 0\<rparr> \<and>
   Length (m_vel (run stdlib [\<lparr>roll = 0, pitch = - 1, power = 10, flaps = 1\<rparr>,
                              \<lparr>roll = - 1, pitch = 0, power = 0, flaps = 0\<rparr>] (init stdlib))) \<le> 500 \<and>
   m_speed (run stdlib [\<lparr>roll = 0, pitch = - 1, power = 10, flaps = 1\<rparr>,
                        \<lparr>roll = - 1, pitch = 0, power = 0, flaps = 0\<rparr>] (init stdlib)) \<le> 500"
proof -
  let ?cs = "[\<lparr>roll = 0, pitch = - 1, power = 10, flaps = 1\<rparr>,
              \<lparr>roll = - 1, pitch = 0, power = 0, flaps = 0\<rparr>]"
  have h: "\<forall>c\<in>set ?cs. controls_ok c"
    by (simp add: controls_ok_def)
  from C2_speed_bounded[OF stdlib_unit stdlib_rotations h] h stdlib_unit stdlib_rotations
  show ?thesis
    by simp
qed

text \<open>C3, as amended. In every \<^verbatim>\<open>Advance\<close> call the new \<^verbatim>\<open>pitch_advance\<close> is
  \<open>p * 0.9995 + pitch * 0.005\<close>, where \<open>p\<close> is 1.1 when the altitude is at most 0 and the
  old \<^verbatim>\<open>pitch_advance\<close> otherwise: the blend is applied on the ground as well, after the
  value was forced to 1.1.\<close>

theorem C3_pitch_adv_blend:
  "m_pitch_adv (Advance L s) =
     (if vy (m_pos s) \<le> 0 then 1.1 else m_pitch_adv s) * 0.9995 + m_pitch s * 0.005"
  by (simp add: Advance_pitch_adv next_pitch_adv_def)

text \<open>C3, counterexample to the claim as stated (altitude \<open>\<le> 0\<close> gives exactly 1.1): for
  the plane parked on the runway, with the pitch control released, one \<^verbatim>\<open>Advance\<close> call
  leaves \<^verbatim>\<open>pitch_advance\<close> at \<open>1.1 * 0.9995 = 1.09945\<close>.\<close>

theorem C3_ground_value_not_1_1:
  "vy (m_pos parked) \<le> 0 \<and> m_pitch parked = 0 \<and>
   m_pitch_adv (Advance stdlib parked) = 1.09945 \<and>
   m_pitch_adv (Advance stdlib parked) \<noteq> 1.1"
  by (simp add: Advance_pitch_adv next_pitch_adv_def parked_def init_def Vec3_def)

text \<open>C4. Whenever the landing evaluator grades a landing (more than 2000 ticks airborne),
  \<^verbatim>\<open>landing_result.success\<close> is true if and only if speed \<open>< 80\<close>, \<open>|velocity.y| < 2\<close>,
  \<open>|pitch angle| < 5\<close>, \<open>|roll angle| < 5\<close>, \<open>|position.x| < runway_width\<close> and
  \<open>|position.z| < runway_length\<close>; and the message is the verdict (\<open>LANDED!\<close> or \<open>CRASH\<close>)
  followed by one line for each criterion, with the printed value and \<open>OK\<close> when the
  criterion holds, \<open>FAIL\<close> when it does not.\<close>

theorem C4_landing_grade:
  "2000 < sint (m_airborn s) \<Longrightarrow>
   (m_landing_status (CheckLanding L s) \<longleftrightarrow>
      (m_speed s < 80 \<and> \<bar>vy (m_vel s)\<bar> < 2 \<and> \<bar>vy (toEuler L (m_orient s))\<bar> < 5 \<and>
       \<bar>vx (toEuler L (m_orient s))\<bar> < 5 \<and>
       \<bar>vx (m_pos s)\<bar> < m_runway_width s \<and> \<bar>vz (m_pos s)\<bar> < m_runway_length s)) \<and>
   m_landing_info (CheckLanding L s) =
     (if m_landing_status (CheckLanding L s) then ''LANDED!'' else ''CRASH'') @
     ''\<newline> Speed (<80): '' @ fmt_f L (m_speed s) @ '' m/s     '' @
       (if m_speed s < 80 then ''OK'' else ''FAIL'') @
     ''\<newline> Sink rate (<2): '' @ fmt_f L (vy (m_vel s)) @ '' m/s      '' @
       (if \<bar>vy (m_vel s)\<bar> < 2 then ''OK'' else ''FAIL'') @
     ''\<newline> Pitch (<5): '' @ fmt_f L \<bar>vy (toEuler L (m_orient s))\<bar> @ '' deg     '' @
       (if \<bar>vy (toEuler L (m_orient s))\<bar> < 5 then ''OK'' else ''FAIL'') @
     ''\<newline> Roll (<5): '' @ fmt_f L \<bar>vx (toEuler L (m_orient s))\<bar> @ '' deg     '' @
       (if \<bar>vx (toEuler L (m_orient s))\<bar> < 5 then ''OK'' else ''FAIL'') @
     ''\<newline> On Runway: '' @
       (if \<bar>vx (m_pos s)\<bar> < m_runway_width s \<and> \<bar>vz (m_pos s)\<bar> < m_runway_length s
        then ''Yes     OK'' else ''No     FAIL'') @
     ''\<newline>''"
  using CheckLanding_status[of s L] CheckLanding_info[of s L]
  unfolding landing_msg_def ok_str_def by simp

text \<open>C4, witness: the two examples of the claim, with the messages they leave. With
  speed 60, sink rate 1, pitch 3, roll 2, position \<open>(0,0,100)\<close> and the 50 by 2000 runway
  the landing succeeds; with speed 150 it fails, and the speed line of the message ends
  in \<open>FAIL\<close>, every other line in \<open>OK\<close>.\<close>

theorem C4_landing_grade_witness:
  "2000 < sint (m_airborn (touchdown 60)) \<and>
   m_landing_status (CheckLanding euler_lib (touchdown 60)) \<and>
   m_landing_info (CheckLanding euler_lib (touchdown 60)) =
     ''LANDED!\<newline> Speed (<80): 60.0 m/s     OK\<newline> Sink rate (<2): -1.0 m/s      OK\<newline> Pitch (<5):  3.0 deg     OK\<newline> Roll (<5):  2.0 deg     OK\<newline> On Runway: Yes     OK\<newline>'' \<and>
   2000 < sint (m_airborn (touchdown 150)) \<and>
   \<not> m_landing_status (CheckLanding euler_lib (touchdown 150)) \<and>
   m_landing_info (CheckLanding euler_lib (touchdown 150)) =
     ''CRASH\<newline> Speed (<80): 150.0 m/s     FAIL\<newline> Sink rate (<2): -1.0 m/s      OK\<newline> Pitch (<5):  3.0 deg     OK\<newline> Roll (<5):  2.0 deg     OK\<newline> On Runway: Yes     OK\<newline>''"
proof -
  have a: "2000 < sint (m_airborn (touchdown 60))" "2000 < sint (m_airborn (touchdown 150))"
    by (simp_all add: touchdown_fields)
  show ?thesis
    using C4_landing_grade[OF a(1), of euler_lib] C4_landing_grade[OF a(2), of euler_lib] a
    by (simp add: touchdown_fields euler_lib_fields fmt_4_1f_examples Vec3_def)
qed

text \<open>C5. Every composition of a rotation onto the orientation inside \<^verbatim>\<open>Advance\<close> is
  followed by a renormalisation: the orientation \<^verbatim>\<open>Advance\<close> stores is the one after the
  roll control, or after the ground alignment on ground contact, and each of the three
  values the orientation takes (after the stability rotation, after the roll control,
  after the ground alignment) is the renormalised composition. So for every library whose
  renormalisation returns a length within \<open>\<epsilon>\<close> of 1 (and whose \<^verbatim>\<open>fromDirectionAndRoll\<close>
  does), whatever the length of a composition, the magnitude of the orientation is within
  \<open>[1 - \<epsilon>, 1 + \<epsilon>]\<close> after any sequence of ticks from the initial state with roll inputs
  in \<open>[-1, 1]\<close>, and after each of the three steps of a call that starts from such an
  orientation.\<close>

theorem C5_orientation_unit:
  "renormalizing eps L \<Longrightarrow> (\<forall>c\<in>set cs. \<bar>roll c\<bar> \<le> 1) \<Longrightarrow>
   \<bar>q_length (m_orient s) - 1\<bar> \<le> eps \<Longrightarrow> \<bar>m_roll s\<bar> \<le> 1 \<Longrightarrow>
   \<bar>q_length (m_orient (run L cs (init L))) - 1\<bar> \<le> eps \<and>
   m_orient (Advance L s) =
     (if ground_contact L s then grounded_orient L s else rolled_orient L s) \<and>
   stabilized_orient L s =
     (case fromRotationFromTo L (body_fwd L s) (steered_vaxis L s) 0.001 of
        None \<Rightarrow> m_orient s
      | Some angvel \<Rightarrow> normalize L (qmul L (m_orient s) angvel)) \<and>
   rolled_orient L s =
     normalize L (qmul L (stabilized_orient L s)
       (fromAngleAxis L (m_roll s * 0.001) (vmulq L (Vec3 1 0 0) (stabilized_orient L s)))) \<and>
   grounded_orient L s =
     normalize L (qmul L (fromDirectionAndRoll L (Vec3 (vx (body_fwd L s)) 0 (vz (body_fwd L s))) 0)
       (fromAngleAxis L (- m_roll s * 0.001) (Vec3 0 1 0))) \<and>
   \<bar>q_length (stabilized_orient L s) - 1\<bar> \<le> eps \<and>
   \<bar>q_length (rolled_orient L s) - 1\<bar> \<le> eps \<and>
   \<bar>q_length (grounded_orient L s) - 1\<bar> \<le> eps \<and>
   \<bar>q_length (m_orient (Advance L s)) - 1\<bar> \<le> eps"
proof -
  assume L: "renormalizing eps L" and cs: "\<forall>c\<in>set cs. \<bar>roll c\<bar> \<le> 1"
    and q: "\<bar>q_length (m_orient s) - 1\<bar> \<le> eps" and r: "\<bar>m_roll s\<bar> \<le> 1"
  have "\<bar>q_length (m_orient (run L cs (init L))) - 1\<bar> \<le> eps"
    by (rule run_orient_near[OF L init_orient_near[OF L] cs])
  moreover have "stabilized_orient L s =
     (case fromRotationFromTo L (body_fwd L s) (steered_vaxis L s) 0.001 of
        None \<Rightarrow> m_orient s
      | Some angvel \<Rightarrow> normalize L (qmul L (m_orient s) angvel))"
    by (simp add: stabilized_orient_def)
  moreover have "rolled_orient L s =
     normalize L (qmul L (stabilized_orient L s)
       (fromAngleAxis L (m_roll s * 0.001) (vmulq L (Vec3 1 0 0) (stabilized_orient L s))))"
    by (simp add: rolled_orient_def Let_def)
  moreover have "grounded_orient L s =
     normalize L (qmul L (fromDirectionAndRoll L (Vec3 (vx (body_fwd L s)) 0 (vz (body_fwd L s))) 0)
       (fromAngleAxis L (- m_roll s * 0.001) (Vec3 0 1 0)))"
    by (simp add: grounded_orient_def Let_def)
  ultimately show ?thesis
    using Advance_orient_steps[of L s] stabilized_orient_near[OF L q] rolled_orient_near[OF L q r]
      grounded_orient_near[OF L r] Advance_orient_near[OF L q r]
    by blast
qed

text \<open>C5, witness: a library whose composition and renormalisation both round up by the
  factor 1.0000001, so that the composition of two unit quaternions is not a unit
  quaternion; it meets the contract with \<open>\<epsilon> = 0.000001\<close>. Two ticks from the initial
  state, rolling right and then left, and one call from the initial state, which is
  airborne.\<close>

theorem C5_orientation_unit_witness:
  "renormalizing 0.000001 float_lib \<and>
   q_length (qmul float_lib (Quat 0 0 0 1) (Quat 0 0 0 1)) = 1.0000001 \<and>
   \<bar>roll \<lparr>roll = 1, pitch = 0, power = 3, flaps = 0\<rparr>\<bar> \<le> 1 \<and>
   \<bar>roll \<lparr>roll = - 1, pitch = 0, power = 3, flaps = 0\<rparr>\<bar> \<le> 1 \<and>
   \<bar>q_length (m_orient (init float_lib)) - 1\<bar> \<le> 0.000001 \<and>
   \<bar>m_roll (init float_lib)\<bar> \<le> 1 \<and>
   \<bar>q_length (m_orient (run float_lib [\<lparr>roll = 1, pitch = 0, power = 3, flaps = 0\<rparr>,
                                         \<lparr>roll = - 1, pitch = 0, power = 3, flaps = 0\<rparr>]
                               (init float_lib))) - 1\<bar> \<le> 0.000001 \<and>
   m_orient (Advance float_lib (init float_lib)) = rolled_orient float_lib (init float_lib) \<and>
   \<bar>q_length (stabilized_orient float_lib (init float_lib)) - 1\<bar> \<le> 0.000001 \<and>
   \<bar>q_length (rolled_orient float_lib (init float_lib)) - 1\<bar> \<le> 0.000001 \<and>
   \<bar>q_length (m_orient (Advance float_lib (init float_lib))) - 1\<bar> \<le> 0.000001"
proof -
  let ?cs = "[\<lparr>roll = 1, pitch = 0, power = 3, flaps = 0\<rparr>,
              \<lparr>roll = - 1, pitch = 0, power = 3, flaps = 0\<rparr>]"
  have h: "\<forall>c\<in>set ?cs. \<bar>roll c\<bar> \<le> 1"
    by simp
  have q: "\<bar>q_length (m_orient (init float_lib)) - 1\<bar> \<le> 0.000001"
    by (rule init_orient_near[OF float_lib_renormalizing])
  have r: "\<bar>m_roll (init float_lib)\<bar> \<le> 1"
    by (simp add: init_def)
  have d: "q_length (qmul float_lib (Quat 0 0 0 1) (Quat 0 0 0 1)) = 1.0000001"
    by (simp add: float_lib_def stdlib_def q_length_scale)
       (simp add: q_length_def q_norm2_mul, simp add: q_norm2_def Quat_def)
  note t = C5_orientation_unit[OF float_lib_renormalizing h q r]
  have a: "m_orient (Advance float_lib (init float_lib)) = rolled_orient float_lib (init float_lib)"
    using t[THEN conjunct2, THEN conjunct1] airborne_init[of float_lib] by simp
  have c: "\<bar>roll \<lparr>roll = 1, pitch = 0, power = 3, flaps = 0\<rparr>\<bar> \<le> 1"
    "\<bar>roll \<lparr>roll = - 1, pitch = 0, power = 3, flaps = 0\<rparr>\<bar> \<le> 1"
    by simp_all
  from t a c float_lib_renormalizing q r d show ?thesis
    by blast
qed

text \<open>C6. \<^verbatim>\<open>Advance\<close> is a total function, and its three NaN sources do not reach the
  state (for a top speed that is not negative): the state after the call does not depend
  on what a division by zero evaluates to, since at speed zero the velocity axis is
  replaced by the body forward axis; when \<^verbatim>\<open>acos\<close> gives NaN the angle of attack is 1;
  when the rotation from forward to the velocity axis is NaN the orientation gets the roll
  update alone (or the ground update), built from the orientation the tick started
  with.\<close>

theorem C6_nan_guards:
  "0 \<le> m_max_speed s \<Longrightarrow>
   Advance (L\<lparr>div_zero := f\<rparr>) s = Advance (L\<lparr>div_zero := g\<rparr>) s \<and>
   (limited_speed s = 0 \<longrightarrow>
      steered_vaxis L s =
        Normalize (vmulq L (body_fwd L s)
          (fromAngleAxis L (next_pitch_adv s * 0.0001) (body_right L s)))) \<and>
   (acos (Dot (body_fwd L s) (steered_vaxis L s)) = None \<longrightarrow> m_aoa (Advance L s) = 1) \<and>
   (fromRotationFromTo L (body_fwd L s) (steered_vaxis L s) 0.001 = None \<longrightarrow>
      m_orient (Advance L s) =
        (if ground_contact L s
         then normalize L (qmul L
                (fromDirectionAndRoll L (Vec3 (vx (body_fwd L s)) 0 (vz (body_fwd L s))) 0)
                (fromAngleAxis L (- m_roll s * 0.001) (Vec3 0 1 0)))
         else normalize L (qmul L (m_orient s)
                (fromAngleAxis L (m_roll s * 0.001) (vmulq L (Vec3 1 0 0) (m_orient s))))))"
  using Advance_div_zero[where s = s and L = L and f = f]
    Advance_div_zero[where s = s and L = L and f = g]
  by (simp add: zero_speed_vaxis acos_nan_aoa rotation_nan_orient)

text \<open>C6, witness: the parked plane (speed zero) with two different values for a division
  by zero; the cruise with the library that rounds up, where the scalar product of the
  forward axis and the velocity axis is above 1 and \<^verbatim>\<open>acos\<close> gives NaN; and the plane
  moving tail first, where the rotation from forward to the velocity axis is NaN.\<close>

theorem C6_nan_guards_witness:
  "0 \<le> m_max_speed parked \<and> limited_speed parked = 0 \<and>
   Advance (stdlib\<lparr>div_zero := (\<lambda>v. Vec3 1 2 3)\<rparr>) parked =
     Advance (stdlib\<lparr>div_zero := (\<lambda>v. Vec3 0 0 0)\<rparr>) parked \<and>
   steered_vaxis stdlib parked =
     Normalize (vmulq stdlib (body_fwd stdlib parked)
       (fromAngleAxis stdlib (next_pitch_adv parked * 0.0001) (body_right stdlib parked))) \<and>
   acos (Dot (body_fwd round_up_lib cruise) (steered_vaxis round_up_lib cruise)) = None \<and>
   m_aoa (Advance round_up_lib cruise) = 1 \<and>
   fromRotationFromTo stdlib (body_fwd stdlib reversed) (steered_vaxis stdlib reversed) 0.001 = None \<and>
   m_orient (Advance stdlib reversed) =
     normalize stdlib (qmul stdlib (m_orient reversed)
       (fromAngleAxis stdlib (m_roll reversed * 0.001) (vmulq stdlib (Vec3 1 0 0) (m_orient reversed))))"
proof -
  have m: "0 \<le> m_max_speed parked" "0 \<le> m_max_speed cruise" "0 \<le> m_max_speed reversed"
    by (simp_all add: parked_def cruise_def reversed_def init_def)
  from C6_nan_guards[OF m(1), where L = stdlib and f = "\<lambda>v. Vec3 1 2 3" and g = "\<lambda>v. Vec3 0 0 0"]
    C6_nan_guards[OF m(2), where L = round_up_lib and f = "\<lambda>v. Vec3 0 0 0" and g = "\<lambda>v. Vec3 0 0 0"]
    C6_nan_guards[OF m(3), where L = stdlib and f = "\<lambda>v. Vec3 0 0 0" and g = "\<lambda>v. Vec3 0 0 0"]
    m(1) parked_speed cruise_acos reversed_rotation reversed_air
  show ?thesis
    by simp
qed

text \<open>C7, as amended. Each \<^verbatim>\<open>Advance\<close> tick computes: air flow \<open>speed + wind \<cdot> (- vaxis)\<close>;
  dynamic pressure \<open>0.5 * 1.225 * airflow\<^sup>2\<close>; flap lift
  \<open>flaps * cos (speed / max_speed * \<pi> / 2)\<close>; lift
  \<open>up * ((sin (aoa * 0.2) + flap_lift) * q * 0.0001 * 0.5)\<close>; drag
  \<open>- vaxis * q * 0.0001 * (1 + flaps)\<close>; thrust \<open>forward * power\<close>; and the acceleration
  \<open>(lift + drag + thrust) / 0.1 + (0, -9.8, 0) + wind * 1.225 * 0.1\<close>, to which a tick with
  ground contact adds the ground force \<open>(0, 9.8, 0)\<close>.\<close>

theorem C7_forces_and_acceleration:
  "airflow L s = m_speed (Advance L s) + Dot (m_wind s) (vscale (steered_vaxis L s) (- 1)) \<and>
   dynamic_pressure L s = 0.5 * 1.225 * (airflow L s)\<^sup>2 \<and>
   flap_lift s = m_flaps s * cos (m_speed (Advance L s) / m_max_speed s * (pi / 2)) \<and>
   m_lift (Advance L s) =
     vscale (body_up L s)
       ((sin (m_aoa (Advance L s) * 0.2) + flap_lift s) * dynamic_pressure L s * 0.0001 * 0.5) \<and>
   m_drag (Advance L s) =
     vscale (steered_vaxis L s) (- (dynamic_pressure L s * 0.0001 * (1 + m_flaps s))) \<and>
   m_thrust (Advance L s) = vscale (body_fwd L s) (m_power s) \<and>
   m_accel (Advance L s) =
     vadd (vadd (vadd (vdiv (vadd (vadd (m_lift (Advance L s)) (m_drag (Advance L s)))
                               (m_thrust (Advance L s))) 0.1)
                   (Vec3 0 (- 9.8) 0))
             (vscale (m_wind s) (1.225 * 0.1)))
       (if ground_contact L s then Vec3 0 9.8 0 else Vec3 0 0 0)"
proof (intro conjI)
  show "airflow L s = m_speed (Advance L s) + Dot (m_wind s) (vscale (steered_vaxis L s) (- 1))"
    by (simp add: airflow_def Advance_speed)
  show "dynamic_pressure L s = 0.5 * 1.225 * (airflow L s)\<^sup>2"
    by (simp add: dynamic_pressure_def power2_eq_square)
  show "flap_lift s = m_flaps s * cos (m_speed (Advance L s) / m_max_speed s * (pi / 2))"
    by (simp add: flap_lift_def PI_def Advance_speed)
  show "m_lift (Advance L s) =
     vscale (body_up L s)
       ((sin (m_aoa (Advance L s) * 0.2) + flap_lift s) * dynamic_pressure L s * 0.0001 * 0.5)"
    by (simp only: Advance_lift Advance_aoa)
  show "m_drag (Advance L s) =
     vscale (steered_vaxis L s) (- (dynamic_pressure L s * 0.0001 * (1 + m_flaps s)))"
    by (simp add: Advance_drag vscale_def)
  show "m_thrust (Advance L s) = vscale (body_fwd L s) (m_power s)"
    by (rule Advance_thrust)
  show "m_accel (Advance L s) =
     vadd (vadd (vadd (vdiv (vadd (vadd (m_lift (Advance L s)) (m_drag (Advance L s)))
                               (m_thrust (Advance L s))) 0.1)
                   (Vec3 0 (- 9.8) 0))
             (vscale (m_wind s) (1.225 * 0.1)))
       (if ground_contact L s then Vec3 0 9.8 0 else Vec3 0 0 0)"
    by (rule Advance_accel_split)
qed

text \<open>C7, counterexample to the claim as stated (the acceleration is the sum without the
  ground force on each tick): for the plane parked on the runway the tick detects ground
  contact, and the acceleration it stores differs from
  \<open>(lift + drag + thrust) / 0.1 + (0, -9.8, 0) + wind * 1.225 * 0.1\<close>, by 9.8 in the y
  component.\<close>

theorem C7_ground_tick_acceleration:
  "ground_contact stdlib parked \<and>
   m_accel (Advance stdlib parked) \<noteq>
     vadd (vadd (vdiv (vadd (vadd (m_lift (Advance stdlib parked)) (m_drag (Advance stdlib parked)))
                         (m_thrust (Advance stdlib parked))) 0.1)
             (Vec3 0 (- 9.8) 0))
       (vscale (m_wind parked) (1.225 * 0.1)) \<and>
   vy (m_accel (Advance stdlib parked)) =
     vy (vadd (vadd (vdiv (vadd (vadd (m_lift (Advance stdlib parked)) (m_drag (Advance stdlib parked)))
                         (m_thrust (Advance stdlib parked))) 0.1)
             (Vec3 0 (- 9.8) 0))
       (vscale (m_wind parked) (1.225 * 0.1))) + 9.8"
proof -
  let ?claimed = "vadd (vadd (vdiv (vadd (vadd (m_lift (Advance stdlib parked)) (m_drag (Advance stdlib parked)))
                         (m_thrust (Advance stdlib parked))) 0.1)
             (Vec3 0 (- 9.8) 0))
       (vscale (m_wind parked) (1.225 * 0.1))"
  have "m_accel (Advance stdlib parked) = vadd ?claimed (Vec3 0 9.8 0)"
    by (simp add: Advance_accel_split ground_parked)
  then have y: "vy (m_accel (Advance stdlib parked)) = vy ?claimed + 9.8"
    by (simp add: vadd_def Vec3_def)
  then have "m_accel (Advance stdlib parked) \<noteq> ?claimed"
    by auto
  with y ground_parked show ?thesis
    by blast
qed

text \<open>C8. The grading runs only when \<^verbatim>\<open>airborne_ticks > 2000\<close> at ground contact
  (otherwise the evaluator changes nothing but the counter); every ground contact resets
  \<^verbatim>\<open>airborne_ticks\<close> to 0, whatever the grading did; an airborne tick increments the
  counter and clears the landing message once the new count exceeds 3200.\<close>

theorem C8_airborne_ticks:
  "(\<not> 2000 < sint (m_airborn s) \<longrightarrow> CheckLanding L s = s\<lparr>m_airborn := 0\<rparr>) \<and>
   m_airborn (CheckLanding L s) = 0 \<and>
   (ground_contact L s \<longrightarrow> m_airborn (Advance L s) = 0) \<and>
   (\<not> ground_contact L s \<longrightarrow>
      m_airborn (Advance L s) = m_airborn s + 1 \<and>
      m_landing_info (Advance L s) =
        (if 3200 < sint (m_airborn s + 1) then [] else m_landing_info s) \<and>
      m_landing_status (Advance L s) = m_landing_status s)"
  by (simp add: CheckLanding_skip CheckLanding_airborn Advance_airborn_ground
      Advance_airborn_air Advance_info_air Advance_status_air)

text \<open>C8, witness: the parked plane touches the ground with a count of 0, so nothing is
  graded and the count stays 0; the initial state is airborne with a count of 1, which
  becomes 2; with a count of 3200 and a message, the airborne tick clears the message.\<close>

theorem C8_airborne_ticks_witness:
  "\<not> 2000 < sint (m_airborn parked) \<and> ground_contact stdlib parked \<and>
   CheckLanding stdlib parked = parked\<lparr>m_airborn := 0\<rparr> \<and>
   m_airborn (Advance stdlib parked) = 0 \<and>
   \<not> ground_contact stdlib (init stdlib) \<and>
   m_airborn (Advance stdlib (init stdlib)) = 2 \<and>
   \<not> ground_contact stdlib ((init stdlib)\<lparr>m_airborn := 3200, m_landing_info := ''CRASH''\<rparr>) \<and>
   m_landing_info (Advance stdlib ((init stdlib)\<lparr>m_airborn := 3200, m_landing_info := ''CRASH''\<rparr>)) = []"
proof -
  let ?late = "(init stdlib)\<lparr>m_airborn := 3200, m_landing_info := ''CRASH''\<rparr>"
  have g: "\<not> 2000 < sint (m_airborn parked)" "ground_contact stdlib parked"
    by (simp_all add: ground_parked) (simp add: parked_def)
  have a: "\<not> ground_contact stdlib (init stdlib)"
    by (rule airborne_init)
  have b: "\<not> ground_contact stdlib ?late"
    by (rule airborne_if) (simp_all add: init_def Vec3_def)
  show ?thesis
    using C8_airborne_ticks[of parked stdlib] C8_airborne_ticks[of "init stdlib" stdlib]
      C8_airborne_ticks[of ?late stdlib] g a b
    by (simp add: init_def)
qed

text \<open>C9. From the initial state (\<^verbatim>\<open>pitch_advance = 0\<close>), for every sequence of ticks
  whose pitch inputs lie in \<open>[-1, 1]\<close>, \<^verbatim>\<open>pitch_advance\<close> stays within \<open>[-10, 10]\<close>; and an
  airborne update moves \<^verbatim>\<open>pitch_advance\<close> towards \<open>10 * pitch\<close> by the factor 0.9995, so
  \<open>10 * pitch\<close> is its fixed point and the value does not decay to zero under a held
  input.\<close>

theorem C9_pitch_adv_bounded:
  "(\<forall>c\<in>set cs. \<bar>pitch c\<bar> \<le> 1) \<Longrightarrow>
   \<bar>m_pitch_adv (run L cs (init L))\<bar> \<le> 10 \<and>
   (\<forall>s. 0 < vy (m_pos s) \<longrightarrow>
      m_pitch_adv (Advance L s) - 10 * m_pitch s = 0.9995 * (m_pitch_adv s - 10 * m_pitch s))"
  using run_pitch_adv_bound[of "init L" cs L]
  by (simp add: pitch_adv_contraction) (simp add: init_def)

text \<open>C9, witness: two ticks with the stick held at \<open>pitch = 1\<close>, and then at
  \<open>pitch = - 1\<close>; and the airborne update at the initial state.\<close>

theorem C9_pitch_adv_bounded_witness:
  "\<bar>pitch \<lparr>roll = 0, pitch = 1, power = 3, flaps = 0\<rparr>\<bar> \<le> 1 \<and>
   \<bar>pitch \<lparr>roll = 0, pitch = - 1, power = 3, flaps = 0\<rparr>\<bar> \<le> 1 \<and>
   \<bar>m_pitch_adv (run stdlib [\<lparr>roll = 0, pitch = 1, power = 3, flaps = 0\<rparr>,
                             \<lparr>roll = 0, pitch = - 1, power = 3, flaps = 0\<rparr>] (init stdlib))\<bar> \<le> 10 \<and>
   0 < vy (m_pos (init stdlib)) \<and>
   m_pitch_adv (Advance stdlib (init stdlib)) - 10 * m_pitch (init stdlib) =
     0.9995 * (m_pitch_adv (init stdlib) - 10 * m_pitch (init stdlib))"
proof -
  let ?cs = "[\<lparr>roll = 0, pitch = 1, power = 3, flaps = 0\<rparr>,
              \<lparr>roll = 0, pitch = - 1, power = 3, flaps = 0\<rparr>]"
  have h: "\<forall>c\<in>set ?cs. \<bar>pitch c\<bar> \<le> 1"
    by simp
  have p: "0 < vy (m_pos (init stdlib))"
    by (simp add: init_def Vec3_def)
  from C9_pitch_adv_bounded[OF h, of stdlib] p show ?thesis
    by simp
qed

text \<open>C10. When ground contact is detected with \<^verbatim>\<open>airborne_ticks \<le> 2000\<close>, the landing
  evaluator leaves the landing message and the success flag as they were and resets
  \<^verbatim>\<open>airborne_ticks\<close> to 0.\<close>

theorem C10_graze_keeps_verdict:
  "\<not> 2000 < sint (m_airborn s) \<Longrightarrow>
   CheckLanding L s = s\<lparr>m_airborn := 0\<rparr> \<and>
   (ground_contact L s \<longrightarrow>
      m_landing_info (Advance L s) = m_landing_info s \<and>
      m_landing_status (Advance L s) = m_landing_status s \<and>
      m_airborn (Advance L s) = 0)"
  by (simp add: CheckLanding_skip Advance_landing_graze Advance_airborn_ground)

text \<open>C10, witness: a plane on the ground at rest, 2000 ticks after its last contact and
  still showing the verdict of a landing.\<close>

theorem C10_graze_keeps_verdict_witness:
  "\<not> 2000 < sint (m_airborn (parked\<lparr>m_airborn := 2000, m_landing_info := ''LANDED!'',
        m_landing_status := True\<rparr>)) \<and>
   ground_contact stdlib (parked\<lparr>m_airborn := 2000, m_landing_info := ''LANDED!'',
        m_landing_status := True\<rparr>) \<and>
   m_landing_info (Advance stdlib (parked\<lparr>m_airborn := 2000, m_landing_info := ''LANDED!'',
        m_landing_status := True\<rparr>)) = ''LANDED!'' \<and>
   m_landing_status (Advance stdlib (parked\<lparr>m_airborn := 2000, m_landing_info := ''LANDED!'',
        m_landing_status := True\<rparr>)) \<and>
   m_airborn (Advance stdlib (parked\<lparr>m_airborn := 2000, m_landing_info := ''LANDED!'',
        m_landing_status := True\<rparr>)) = 0"
proof -
  let ?s = "parked\<lparr>m_airborn := 2000, m_landing_info := ''LANDED!'', m_landing_status := True\<rparr>"
  have h: "\<not> 2000 < sint (m_airborn ?s)"
    by simp
  have g: "ground_contact stdlib ?s"
    by (rule ground_at_rest) (simp_all add: parked_def init_def Vec3_def)
  from C10_graze_keeps_verdict[OF h, of stdlib] h g show ?thesis
    by simp
qed

end
